theory Spec2Isabelle
  imports Complex_Main
begin

section \<open>Python strings\<close>

text \<open>
  A Python \<open>str\<close> is modelled as a \<^typ>\<open>string\<close> whose characters are the code points
  0..255.  The utterances the assistant handles are ASCII; the functions below follow
  the \<open>str\<close> methods of the same name on that range (a character above 127 is taken
  to be caseless and not white space).
\<close>

definition is_space :: "char \<Rightarrow> bool" where
  \<comment> \<open>\<open>str.isspace\<close> and the class \<open>\s\<close> on ASCII: TAB, LF, VT, FF, CR, FS, GS, RS, US, SPACE\<close>
  "is_space c \<longleftrightarrow>
     c \<in> set [CHR 0x20, CHR 0x09, CHR 0x0A, CHR 0x0B, CHR 0x0C, CHR 0x0D,
                CHR 0x1C, CHR 0x1D, CHR 0x1E, CHR 0x1F]"

definition is_digit :: "char \<Rightarrow> bool" where
  "is_digit c \<longleftrightarrow> c \<in> set ''0123456789''"

definition is_lower_letter :: "char \<Rightarrow> bool" where
  "is_lower_letter c \<longleftrightarrow> c \<in> set ''abcdefghijklmnopqrstuvwxyz''"

definition is_upper_letter :: "char \<Rightarrow> bool" where
  "is_upper_letter c \<longleftrightarrow> c \<in> set ''ABCDEFGHIJKLMNOPQRSTUVWXYZ''"

definition is_letter :: "char \<Rightarrow> bool" where
  "is_letter c \<longleftrightarrow> is_lower_letter c \<or> is_upper_letter c"

definition lower_char :: "char \<Rightarrow> char" where
  "lower_char c =
     (case map_of (zip ''ABCDEFGHIJKLMNOPQRSTUVWXYZ'' ''abcdefghijklmnopqrstuvwxyz'') c of
        Some l \<Rightarrow> l | None \<Rightarrow> c)"

definition upper_char :: "char \<Rightarrow> char" where
  "upper_char c =
     (case map_of (zip ''abcdefghijklmnopqrstuvwxyz'' ''ABCDEFGHIJKLMNOPQRSTUVWXYZ'') c of
        Some u \<Rightarrow> u | None \<Rightarrow> c)"

definition lower :: "string \<Rightarrow> string" where
  "lower s = map lower_char s"

definition lstrip :: "string \<Rightarrow> string" where
  "lstrip s = dropWhile is_space s"

definition rstrip :: "string \<Rightarrow> string" where
  "rstrip s = rev (dropWhile is_space (rev s))"

definition strip :: "string \<Rightarrow> string" where
  "strip s = rstrip (lstrip s)"

fun startswith :: "string \<Rightarrow> string \<Rightarrow> bool" where
  \<comment> \<open>\<open>s.startswith(p)\<close>\<close>
  "startswith s [] = True"
| "startswith [] (p # ps) = False"
| "startswith (c # cs) (p # ps) = (c = p \<and> startswith cs ps)"

fun contains :: "string \<Rightarrow> string \<Rightarrow> bool" where
  \<comment> \<open>\<open>p in s\<close>, the substring test\<close>
  "contains p [] = (p = [])"
| "contains p (c # cs) = (startswith (c # cs) p \<or> contains p cs)"

fun replace_from :: "string \<Rightarrow> string \<Rightarrow> nat \<Rightarrow> string \<Rightarrow> string" where
  \<comment> \<open>the scan of \<open>str.replace\<close> for a non-empty pattern; the counter is the number of
      characters of the current occurrence still to be skipped\<close>
  "replace_from old new k [] = []"
| "replace_from old new (Suc k) (c # cs) = replace_from old new k cs"
| "replace_from old new 0 (c # cs) =
     (if startswith (c # cs) old then new @ replace_from old new (length old - 1) cs
      else c # replace_from old new 0 cs)"

definition replace :: "string \<Rightarrow> string \<Rightarrow> string \<Rightarrow> string" where
  \<comment> \<open>\<open>s.replace(old, new)\<close>: every non-overlapping occurrence, left to right; an empty
      pattern occurs before every character and at the end\<close>
  "replace s old new =
     (if old = [] then new @ concat (map (\<lambda>c. c # new) s) else replace_from old new 0 s)"

definition capitalize :: "string \<Rightarrow> string" where
  "capitalize s = (case s of [] \<Rightarrow> [] | c # cs \<Rightarrow> upper_char c # lower cs)"

definition digit_char :: "nat \<Rightarrow> char" where
  "digit_char d = ''0123456789'' ! (d mod 10)"

fun str_nat_fuel :: "nat \<Rightarrow> nat \<Rightarrow> string" where
  \<comment> \<open>the decimal digits of a natural number; the first argument bounds the number of digits\<close>
  "str_nat_fuel 0 n = []"
| "str_nat_fuel (Suc k) n =
     (if n < 10 then [digit_char n] else str_nat_fuel k (n div 10) @ [digit_char n])"

definition str_nat :: "nat \<Rightarrow> string" where
  "str_nat n = str_nat_fuel (Suc n) n"

definition str_int :: "int \<Rightarrow> string" where
  \<comment> \<open>\<open>str(i)\<close> for a Python \<open>int\<close>\<close>
  "str_int i = (if i < 0 then CHR ''-'' # str_nat (nat (- i)) else str_nat (nat i))"

definition digit_val :: "char \<Rightarrow> nat" where
  "digit_val c = (case map_of (zip ''0123456789'' [0, 1, 2, 3, 4, 5, 6, 7, 8, 9]) c of
                    Some d \<Rightarrow> d | None \<Rightarrow> 0)"

definition int_of_digits :: "string \<Rightarrow> nat" where
  \<comment> \<open>\<open>int(s)\<close> for a string of decimal digits\<close>
  "int_of_digits s = foldl (\<lambda>n c. 10 * n + digit_val c) 0 s"

definition format_02d :: "nat \<Rightarrow> string" where
  \<comment> \<open>the format \<open>{n:02d}\<close>: at least two digits, padded with a zero\<close>
  "format_02d n = (if n < 10 then CHR ''0'' # str_nat n else str_nat n)"

section \<open>The safe math evaluator\<close>

subsection \<open>Exceptions, syntax trees and values\<close>

text \<open>
  The exceptions a call can raise, all of them subclasses of \<open>Exception\<close>.  The
  evaluator reports every failure to its caller as \<open>ValueError("Invalid expression")\<close>.
\<close>

datatype pyerr =
    SyntaxError
  | ValueError string
  | TypeError
  | ZeroDivisionError
  | OverflowError
  | AttributeError
  | RecursionError
  | OtherException

text \<open>
  The nodes \<open>ast.parse(expr, mode="eval").body\<close> can be made of.  \<open>operator\<close> lists the
  binary operator classes of the \<open>ast\<close> module, \<open>unaryop\<close> the unary ones.  A call keeps its
  positional arguments and its keyword arguments (the name is \<open>None\<close> for \<open>**kw\<close>).  Every
  node class the evaluator has no test for (\<open>Compare\<close>, \<open>BoolOp\<close>, \<open>IfExp\<close>, \<open>Lambda\<close>, \<open>List\<close>,
  \<open>Tuple\<close>, \<open>Dict\<close>, \<open>Starred\<close>, \<open>JoinedStr\<close>, ...) is \<open>OtherNode\<close> with its class name and
  its children.  The type \<open>'f\<close> stands for the host's floats.
\<close>

datatype operator =
  Add | Sub | Mult | Div | PowOp | Mod | FloorDiv | MatMult | LShift | RShift | BitOr | BitXor | BitAnd

datatype unaryop = USub | UAdd | NotOp | Invert

datatype 'f pyconst =
    IntC int
  | BoolC bool
  | FloatC 'f
  | ComplexC 'f
  | StrC string
  | BytesC string
  | NoneC
  | EllipsisC

datatype 'f expr =
    Constant "'f pyconst"
  | BinOp "'f expr" operator "'f expr"
  | UnaryOp unaryop "'f expr"
  | Call "'f expr" "'f expr list" "(string option \<times> 'f expr) list"
  | Name string
  | Attribute "'f expr" string
  | Subscript "'f expr" "'f expr"
  | OtherNode string "'f expr list"

text \<open>
  What an evaluation can return: an \<open>int\<close>, a \<open>bool\<close>, a \<open>float\<close>, a \<open>complex\<close> (real and
  imaginary part; the power of a negative float can be one), or one of the functions of
  the \<open>math\<close> module, named by its entry in \<open>SAFE_NAMES\<close>.
\<close>

datatype 'f val =
    IntV int
  | BoolV bool
  | FloatV 'f
  | ComplexV 'f 'f
  | FuncV string

text \<open>
  The host, as far as the evaluator reaches it: the parser, the two constants of the
  \<open>math\<close> module, floating-point arithmetic and the floating-point functions of \<open>math\<close>,
  the largest C \<open>long\<close> (\<open>math.factorial\<close> refuses a larger argument), \<open>str()\<close> of
  a float or a complex number, and the largest number of digits \<open>str()\<close> gives an \<open>int\<close>
  (0 for no limit).  Integer arithmetic is exact and is written out below.

  The interpreter's stack is the host's too.  \<open>recursion_limit\<close> is the number of frames
  it has room for at the moment \<open>_safe_eval\<close> calls \<open>_eval_node\<close>.  \<open>node_frames\<close> is the
  number of frames a call of \<open>_eval_node\<close> on a node takes before it turns to the node's
  children: its own, and those of the tests it makes first (\<open>isinstance\<close> against
  \<open>ast.Num\<close> runs Python code).  \<open>listcomp_frames\<close> is the frame of the list comprehension
  over the arguments of a call (one before Python 3.12, none since).  The operators
  and the functions of \<open>math\<close> are C functions and take no frame.
\<close>

record 'f pyhost =
  ast_parse :: "string \<Rightarrow> pyerr + 'f expr"
  math_pi :: 'f
  math_e :: 'f
  float_binop :: "operator \<Rightarrow> 'f val \<Rightarrow> 'f val \<Rightarrow> pyerr + 'f val"
  float_neg :: "'f val \<Rightarrow> 'f val"
  math_call :: "string \<Rightarrow> 'f val list \<Rightarrow> pyerr + 'f val"
  long_max :: int
  float_str :: "'f val \<Rightarrow> string"
  int_max_str_digits :: nat
  recursion_limit :: nat
  node_frames :: "'f expr \<Rightarrow> nat"
  listcomp_frames :: nat

subsection \<open>Operators and names\<close>

fun as_int :: "'f val \<Rightarrow> int option" where
  \<comment> \<open>an \<open>int\<close>, or a \<open>bool\<close> (a subclass of \<open>int\<close>: \<open>True\<close> is 1)\<close>
  "as_int (IntV i) = Some i"
| "as_int (BoolV b) = Some (if b then 1 else 0)"
| "as_int _ = None"

fun is_func :: "'f val \<Rightarrow> bool" where
  "is_func (FuncV n) = True"
| "is_func _ = False"

definition int_binop :: "'f pyhost \<Rightarrow> operator \<Rightarrow> int \<Rightarrow> int \<Rightarrow> pyerr + 'f val" where
  \<comment> \<open>the operators of the \<open>operator\<close> module on two \<open>int\<close>s: \<open>//\<close> and \<open>%\<close> round towards
      minus infinity, as \<open>div\<close> and \<open>mod\<close> do; \<open>/\<close> and a negative power leave the integers\<close>
  "int_binop h oper a b =
     (case oper of
        Add \<Rightarrow> Inr (IntV (a + b))
      | Sub \<Rightarrow> Inr (IntV (a - b))
      | Mult \<Rightarrow> Inr (IntV (a * b))
      | Div \<Rightarrow> if b = 0 then Inl ZeroDivisionError else float_binop h Div (IntV a) (IntV b)
      | FloorDiv \<Rightarrow> if b = 0 then Inl ZeroDivisionError else Inr (IntV (a div b))
      | Mod \<Rightarrow> if b = 0 then Inl ZeroDivisionError else Inr (IntV (a mod b))
      | PowOp \<Rightarrow> if 0 \<le> b then Inr (IntV (a ^ nat b))
               else if a = 0 then Inl ZeroDivisionError
               else float_binop h PowOp (IntV a) (IntV b)
      | _ \<Rightarrow> Inl TypeError)"

definition py_binop :: "'f pyhost \<Rightarrow> operator \<Rightarrow> 'f val \<Rightarrow> 'f val \<Rightarrow> pyerr + 'f val" where
  \<comment> \<open>\<open>op.add\<close>, \<open>op.sub\<close>, ... on two values: a function object is no operand\<close>
  "py_binop h oper l r =
     (if is_func l \<or> is_func r then Inl TypeError
      else case (as_int l, as_int r) of
             (Some a, Some b) \<Rightarrow> int_binop h oper a b
           | _ \<Rightarrow> float_binop h oper l r)"

definition py_neg :: "'f pyhost \<Rightarrow> 'f val \<Rightarrow> pyerr + 'f val" where
  \<comment> \<open>\<open>op.neg\<close>\<close>
  "py_neg h v =
     (if is_func v then Inl TypeError
      else case as_int v of Some a \<Rightarrow> Inr (IntV (- a)) | None \<Rightarrow> Inr (float_neg h v))"

text \<open>
  \<open>ALLOWED_OPERATORS\<close> is one dictionary keyed by node class.  A \<open>BinOp\<close> carries a binary
  operator class and a \<open>UnaryOp\<close> a unary one, so the dictionary is read here as its
  binary entries and its one unary entry (\<open>ast.USub\<close>).
\<close>

definition ALLOWED_OPERATORS ::
  "'f pyhost \<Rightarrow> operator \<Rightarrow> ('f val \<Rightarrow> 'f val \<Rightarrow> pyerr + 'f val) option" where
  "ALLOWED_OPERATORS h oper =
     (if oper \<in> set [Add, Sub, Mult, Div, PowOp, Mod, FloorDiv] then Some (py_binop h oper)
      else None)"

definition ALLOWED_OPERATORS_unary ::
  "'f pyhost \<Rightarrow> unaryop \<Rightarrow> ('f val \<Rightarrow> pyerr + 'f val) option" where
  "ALLOWED_OPERATORS_unary h oper = (if oper = USub then Some (py_neg h) else None)"

definition SAFE_FUNCTIONS :: "string list" where
  "SAFE_FUNCTIONS =
     [''sin'', ''cos'', ''tan'', ''sqrt'', ''log'', ''log10'', ''ceil'', ''floor'',
      ''factorial'', ''fabs'']"

definition SAFE_NAMES :: "'f pyhost \<Rightarrow> string \<Rightarrow> 'f val option" where
  "SAFE_NAMES h n =
     (if n \<in> set SAFE_FUNCTIONS then Some (FuncV n)
      else if n = ''pi'' then Some (FloatV (math_pi h))
      else if n = ''e'' then Some (FloatV (math_e h))
      else None)"

definition arity_ok :: "string \<Rightarrow> nat \<Rightarrow> bool" where
  \<comment> \<open>\<open>math.log\<close> takes one or two arguments, every other function one\<close>
  "arity_ok n k \<longleftrightarrow> (if n = ''log'' then k = 1 \<or> k = 2 else k = 1)"

fun is_real_number :: "'f val \<Rightarrow> bool" where
  "is_real_number (IntV i) = True"
| "is_real_number (BoolV b) = True"
| "is_real_number (FloatV x) = True"
| "is_real_number _ = False"

definition call_math :: "'f pyhost \<Rightarrow> string \<Rightarrow> 'f val list \<Rightarrow> pyerr + 'f val" where
  \<comment> \<open>a function of the \<open>math\<close> module applied to positional arguments: the wrong number of
      arguments or an argument that is no real number is a \<open>TypeError\<close>; on \<open>int\<close>s,
      \<open>factorial\<close>, \<open>ceil\<close> and \<open>floor\<close> are exact; the rest is the host's floating point\<close>
  "call_math h n vs =
     (if arity_ok n (length vs) \<and> list_all is_real_number vs then
        (case map as_int vs of
           [Some a] \<Rightarrow>
             if n = ''factorial'' then
               (if a < 0 then Inl (ValueError ''factorial() not defined for negative values'')
                else if long_max h < a then Inl OverflowError
                else Inr (IntV (int (fact (nat a)))))
             else if n = ''ceil'' \<or> n = ''floor'' then Inr (IntV a)
             else math_call h n vs
         | _ \<Rightarrow> math_call h n vs)
      else Inl TypeError)"

definition py_call :: "'f pyhost \<Rightarrow> 'f val \<Rightarrow> 'f val list \<Rightarrow> pyerr + 'f val" where
  \<comment> \<open>\<open>SAFE_NAMES[id](*args)\<close>: only a function object can be called\<close>
  "py_call h callee vs =
     (case callee of FuncV n \<Rightarrow> call_math h n vs | _ \<Rightarrow> Inl TypeError)"

subsection \<open>Evaluation\<close>

text \<open>
  \<open>_eval_node\<close>, test by test.  From Python 3.8 on, the parser makes every literal a
  \<open>Constant\<close>, which the first test answers or refuses, so the test for \<open>ast.Num\<close> that
  follows it in the source is never the one that decides.  A test that fails falls
  through to the final \<open>raise ValueError("Unsupported expression")\<close>.  The operands of a
  \<open>BinOp\<close> are evaluated before its operator is looked up, the operand of a \<open>UnaryOp\<close>
  after; the keyword arguments of a call are not read.  Integers are unbounded.

  The second argument is the number of frames in use when \<open>_eval_node\<close> is called.  A
  call that the stack has no room for raises \<open>RecursionError\<close>, which \<open>_safe_eval\<close> reports
  like every other exception.
\<close>

definition unsupported :: "pyerr + 'a" where
  "unsupported = Inl (ValueError ''Unsupported expression'')"

fun eval_node :: "'f pyhost \<Rightarrow> nat \<Rightarrow> 'f expr \<Rightarrow> pyerr + 'f val"
  and eval_args :: "'f pyhost \<Rightarrow> nat \<Rightarrow> 'f expr list \<Rightarrow> pyerr + 'f val list" where
  "eval_node h d (Constant c) =
     (if recursion_limit h < d + node_frames h (Constant c) then Inl RecursionError
      else case c of
             IntC i \<Rightarrow> Inr (IntV i)
           | BoolC b \<Rightarrow> Inr (BoolV b)
           | FloatC x \<Rightarrow> Inr (FloatV x)
           | _ \<Rightarrow> Inl (ValueError ''Invalid constant''))"
| "eval_node h d (BinOp l oper r) =
     (if recursion_limit h < d + node_frames h (BinOp l oper r) then Inl RecursionError
      else case eval_node h (Suc d) l of
             Inl err \<Rightarrow> Inl err
           | Inr left \<Rightarrow>
               (case eval_node h (Suc d) r of
                  Inl err \<Rightarrow> Inl err
                | Inr right \<Rightarrow>
                    (case ALLOWED_OPERATORS h oper of
                       Some f \<Rightarrow> f left right
                     | None \<Rightarrow> unsupported)))"
| "eval_node h d (UnaryOp oper x) =
     (if recursion_limit h < d + node_frames h (UnaryOp oper x) then Inl RecursionError
      else case ALLOWED_OPERATORS_unary h oper of
             Some f \<Rightarrow> (case eval_node h (Suc d) x of Inl err \<Rightarrow> Inl err | Inr v \<Rightarrow> f v)
           | None \<Rightarrow> unsupported)"
| "eval_node h d (Call func args keywords) =
     (if recursion_limit h < d + node_frames h (Call func args keywords) then Inl RecursionError
      else case func of
             Name n \<Rightarrow>
               (case SAFE_NAMES h n of
                  Some callee \<Rightarrow>
                    if recursion_limit h < Suc d + listcomp_frames h then Inl RecursionError
                    else
                      (case eval_args h (Suc d + listcomp_frames h) args of
                         Inl err \<Rightarrow> Inl err
                       | Inr vs \<Rightarrow> py_call h callee vs)
                | None \<Rightarrow> unsupported)
           | _ \<Rightarrow> unsupported)"
| "eval_node h d (Name n) =
     (if recursion_limit h < d + node_frames h (Name n) then Inl RecursionError
      else case SAFE_NAMES h n of Some v \<Rightarrow> Inr v | None \<Rightarrow> unsupported)"
| "eval_node h d (Attribute x a) =
     (if recursion_limit h < d + node_frames h (Attribute x a) then Inl RecursionError
      else unsupported)"
| "eval_node h d (Subscript x i) =
     (if recursion_limit h < d + node_frames h (Subscript x i) then Inl RecursionError
      else unsupported)"
| "eval_node h d (OtherNode cls xs) =
     (if recursion_limit h < d + node_frames h (OtherNode cls xs) then Inl RecursionError
      else unsupported)"
| "eval_args h d [] = Inr []"
| "eval_args h d (a # as) =
     (case eval_node h d a of
        Inl err \<Rightarrow> Inl err
      | Inr v \<Rightarrow> (case eval_args h d as of Inl err \<Rightarrow> Inl err | Inr vs \<Rightarrow> Inr (v # vs)))"

definition safe_eval :: "'f pyhost \<Rightarrow> string \<Rightarrow> pyerr + 'f val" where
  "safe_eval h expr =
     (case ast_parse h expr of
        Inl err \<Rightarrow> Inl (ValueError ''Invalid expression'')
      | Inr node \<Rightarrow>
          (case eval_node h 0 node of
             Inl err \<Rightarrow> Inl (ValueError ''Invalid expression'')
           | Inr v \<Rightarrow> Inr v))"

text \<open>
  \<open>fits_stack h d e\<close>: with \<open>d\<close> frames in use, the stack has room for every call that the
  evaluation of \<open>e\<close> can make.
\<close>

fun fits_stack :: "'f pyhost \<Rightarrow> nat \<Rightarrow> 'f expr \<Rightarrow> bool" where
  "fits_stack h d (Constant c) = (d + node_frames h (Constant c) \<le> recursion_limit h)"
| "fits_stack h d (BinOp l oper r) =
     (d + node_frames h (BinOp l oper r) \<le> recursion_limit h
      \<and> fits_stack h (Suc d) l \<and> fits_stack h (Suc d) r)"
| "fits_stack h d (UnaryOp oper x) =
     (d + node_frames h (UnaryOp oper x) \<le> recursion_limit h \<and> fits_stack h (Suc d) x)"
| "fits_stack h d (Call func args keywords) =
     (d + node_frames h (Call func args keywords) \<le> recursion_limit h
      \<and> Suc d + listcomp_frames h \<le> recursion_limit h
      \<and> list_all (fits_stack h (Suc d + listcomp_frames h)) args)"
| "fits_stack h d (Name n) = (d + node_frames h (Name n) \<le> recursion_limit h)"
| "fits_stack h d (Attribute x a) = (d + node_frames h (Attribute x a) \<le> recursion_limit h)"
| "fits_stack h d (Subscript x i) = (d + node_frames h (Subscript x i) \<le> recursion_limit h)"
| "fits_stack h d (OtherNode cls xs) =
     (d + node_frames h (OtherNode cls xs) \<le> recursion_limit h)"

subsection \<open>The grammar, in the spec's words and as the evaluator tests it\<close>

text \<open>
  The spec's grammar: numeric literals, the seven binary operators, unary negation,
  calls of an allow-listed function on arguments of the grammar, and the named
  constants \<open>pi\<close> and \<open>e\<close>.
\<close>

fun restricted_grammar :: "'f expr \<Rightarrow> bool" where
  "restricted_grammar (Constant c) =
     (case c of IntC i \<Rightarrow> True | FloatC x \<Rightarrow> True | _ \<Rightarrow> False)"
| "restricted_grammar (BinOp l oper r) =
     (oper \<in> set [Add, Sub, Mult, Div, PowOp, Mod, FloorDiv]
      \<and> restricted_grammar l \<and> restricted_grammar r)"
| "restricted_grammar (UnaryOp oper x) = (oper = USub \<and> restricted_grammar x)"
| "restricted_grammar (Call func args keywords) =
     ((case func of Name n \<Rightarrow> n \<in> set SAFE_FUNCTIONS | _ \<Rightarrow> False)
      \<and> list_all restricted_grammar args \<and> keywords = [])"
| "restricted_grammar (Name n) = (n = ''pi'' \<or> n = ''e'')"
| "restricted_grammar (Attribute x a) = False"
| "restricted_grammar (Subscript x i) = False"
| "restricted_grammar (OtherNode cls xs) = False"

text \<open>
  The tests \<open>_eval_node\<close> makes on the nodes it visits.  They differ from the grammar in
  three places: a \<open>bool\<close> literal passes \<open>isinstance(node.value, (int, float))\<close>; the keyword
  arguments of a call are never looked at; and a name is looked up in \<open>SAFE_NAMES\<close>
  whether it stands for a constant or for a function.
\<close>

fun passes_checks :: "'f expr \<Rightarrow> bool" where
  "passes_checks (Constant c) =
     (case c of IntC i \<Rightarrow> True | BoolC b \<Rightarrow> True | FloatC x \<Rightarrow> True | _ \<Rightarrow> False)"
| "passes_checks (BinOp l oper r) =
     (oper \<in> set [Add, Sub, Mult, Div, PowOp, Mod, FloorDiv]
      \<and> passes_checks l \<and> passes_checks r)"
| "passes_checks (UnaryOp oper x) = (oper = USub \<and> passes_checks x)"
| "passes_checks (Call func args keywords) =
     ((case func of Name n \<Rightarrow> n \<in> set SAFE_FUNCTIONS | _ \<Rightarrow> False)
      \<and> list_all passes_checks args)"
| "passes_checks (Name n) = (n \<in> set SAFE_FUNCTIONS \<or> n = ''pi'' \<or> n = ''e'')"
| "passes_checks (Attribute x a) = False"
| "passes_checks (Subscript x i) = False"
| "passes_checks (OtherNode cls xs) = False"

subsection \<open>The host's parser on a sublanguage\<close>

text \<open>
  \<open>ast.parse\<close> belongs to the host.  To run examples from the text of an expression,
  \<open>py_parse\<close> follows Python's grammar on a sublanguage: decimal integers, names, the
  constants \<open>True\<close>, \<open>False\<close> and \<open>None\<close>, single-quoted strings without escapes, the
  operators \<open>| ^ & << >> + - * / // % @ **\<close> with their precedence and associativity,
  the unary operators \<open>+ - ~\<close>, parentheses, calls with positional and keyword
  arguments, attribute access and subscripts, separated by spaces (none at the start,
  where Python sees an indentation).  The answer \<open>Some e\<close> is the tree
  \<open>ast.parse(s, mode="eval").body\<close>; \<open>None\<close> says nothing about \<open>s\<close> (it is no expression,
  or lies outside the sublanguage, or is nested deeper than 50 levels, where the
  parser's own limits come near).
\<close>

datatype token = TNum int | TName string | TStr string | TOp string

fun height :: "'f expr \<Rightarrow> nat" where
  \<comment> \<open>the nesting depth of a tree\<close>
  "height (Constant c) = 1"
| "height (BinOp l oper r) = Suc (max (height l) (height r))"
| "height (UnaryOp oper x) = Suc (height x)"
| "height (Call func args keywords) =
     Suc (max (height func)
            (max (foldr max (map height args) 0)
                 (foldr max (map (\<lambda>kw. height (snd kw)) keywords) 0)))"
| "height (Name n) = 1"
| "height (Attribute x a) = Suc (height x)"
| "height (Subscript x i) = Suc (max (height x) (height i))"
| "height (OtherNode cls xs) = Suc (foldr max (map height xs) 0)"

definition is_ident_char :: "char \<Rightarrow> bool" where
  "is_ident_char c \<longleftrightarrow> is_letter c \<or> is_digit c \<or> c = CHR ''_''"

definition py_keywords :: "string list" where
  "py_keywords =
     [''and'', ''as'', ''assert'', ''async'', ''await'', ''break'', ''class'', ''continue'',
      ''def'', ''del'', ''elif'', ''else'', ''except'', ''finally'', ''for'', ''from'',
      ''global'', ''if'', ''import'', ''in'', ''is'', ''lambda'', ''nonlocal'', ''not'', ''or'',
      ''pass'', ''raise'', ''return'', ''try'', ''while'', ''with'', ''yield'']"

definition two_char_ops :: "string list" where
  "two_char_ops = [''**'', ''//'', ''<<'', ''>>'']"

definition one_char_ops :: "string" where
  "one_char_ops = ''|^&+-*/%@~(),.[]=''"

fun tokenize :: "nat \<Rightarrow> string \<Rightarrow> token list option" where
  "tokenize 0 s = None"
| "tokenize (Suc k) [] = Some []"
| "tokenize (Suc k) (c # cs) =
     (if c = CHR '' '' then tokenize k cs
      else if is_digit c then
        (let ds = takeWhile is_digit (c # cs); rest = dropWhile is_digit (c # cs) in
         if (rest \<noteq> [] \<and> (is_ident_char (hd rest) \<or> hd rest = CHR ''.''))
            \<or> (c = CHR ''0'' \<and> int_of_digits ds \<noteq> 0) \<or> 4300 < length ds
         then None
         else map_option ((#) (TNum (int (int_of_digits ds)))) (tokenize k rest))
      else if is_ident_char c then
        (let nm = takeWhile is_ident_char (c # cs); rest = dropWhile is_ident_char (c # cs) in
         if nm \<in> set py_keywords \<or> (rest \<noteq> [] \<and> hd rest = CHR 0x27) then None
         else map_option ((#) (TName nm)) (tokenize k rest))
      else if c = CHR 0x27 then
        (let body = takeWhile (\<lambda>x. x \<noteq> CHR 0x27) cs; rest = dropWhile (\<lambda>x. x \<noteq> CHR 0x27) cs in
         if rest = [] \<or> CHR 0x5C \<in> set body \<or> CHR 0x0A \<in> set body then None
         else map_option ((#) (TStr body)) (tokenize k (tl rest)))
      else if take 2 (c # cs) \<in> set two_char_ops then
        (if take 1 (drop 2 (c # cs)) = ''='' then None
         else map_option ((#) (TOp (take 2 (c # cs)))) (tokenize k (drop 1 cs)))
      else if c \<in> set one_char_ops then
        (if take 1 cs = ''='' \<or> (c = CHR ''.'' \<and> cs \<noteq> [] \<and> is_digit (hd cs)) then None
         else map_option ((#) (TOp [c])) (tokenize k cs))
      else None)"

definition binop_of :: "nat \<Rightarrow> string \<Rightarrow> operator option" where
  \<comment> \<open>the left-associative binary operators, by level, loosest first\<close>
  "binop_of lvl s =
     map_of ([[(''|'', BitOr)], [(''^'', BitXor)], [(''&'', BitAnd)],
              [(''<<'', LShift), (''>>'', RShift)], [(''+'', Add), (''-'', Sub)],
              [(''*'', Mult), (''/'', Div), (''//'', FloorDiv), (''%'', Mod), (''@'', MatMult)]]
             ! lvl) s"

definition unaryop_of :: "string \<Rightarrow> unaryop option" where
  "unaryop_of s = map_of [(''-'', USub), (''+'', UAdd), (''~'', Invert)] s"

definition atom_of_name :: "string \<Rightarrow> 'f expr" where
  "atom_of_name x =
     (if x = ''True'' then Constant (BoolC True)
      else if x = ''False'' then Constant (BoolC False)
      else if x = ''None'' then Constant NoneC
      else Name x)"

text \<open>
  The parser is one function by recursion on a bound for its depth; the grammar symbol
  to parse is its second argument.  \<open>PExpr\<close> levels 0 to 5 are the binary levels of
  \<open>binop_of\<close>; level 6 is \<open>factor\<close> (unary operators), level 7 is \<open>power\<close> (\<open>**\<close> binds
  tighter than a unary operator on its left and associates to the right), level 8 is
  \<open>primary\<close> (an atom and its trailers).  \<open>PTail\<close> continues a left-associative chain,
  \<open>PTrailers\<close> reads calls, attributes and subscripts after an atom, \<open>PArgs\<close> reads the
  arguments of a call up to its closing parenthesis (the flag: a keyword argument has
  been read, so that no positional argument may follow).
\<close>

datatype 'f ptarget =
    PExpr nat
  | PTail nat "'f expr"
  | PTrailers "'f expr"
  | PArgs bool

datatype 'f parsed =
    GotExpr "'f expr" "token list"
  | GotArgs "'f expr list" "(string option \<times> 'f expr) list" "token list"

definition after_arg ::
  "(bool \<Rightarrow> token list \<Rightarrow> 'f parsed option) \<Rightarrow> bool \<Rightarrow> token list \<Rightarrow> 'f parsed option" where
  \<comment> \<open>after an argument: a comma and the remaining arguments, or the closing parenthesis\<close>
  "after_arg next_args kw ts =
     (case ts of
        TOp s # r \<Rightarrow>
          if s = '','' then next_args kw r else if s = '')'' then Some (GotArgs [] [] r) else None
      | _ \<Rightarrow> None)"

primrec parse :: "nat \<Rightarrow> 'f ptarget \<Rightarrow> token list \<Rightarrow> 'f parsed option" where
  "parse 0 nt ts = None"
| "parse (Suc n) nt ts =
     (case nt of
        PExpr lvl \<Rightarrow>
          if lvl < 6 then
            (case parse n (PExpr (Suc lvl)) ts of
               Some (GotExpr l ts') \<Rightarrow> parse n (PTail lvl l) ts'
             | _ \<Rightarrow> None)
          else if lvl = 6 then
            (case ts of
               TOp s # ts' \<Rightarrow>
                 (case unaryop_of s of
                    Some u \<Rightarrow>
                      (case parse n (PExpr 6) ts' of
                         Some (GotExpr e r) \<Rightarrow> Some (GotExpr (UnaryOp u e) r)
                       | _ \<Rightarrow> None)
                  | None \<Rightarrow> parse n (PExpr 7) ts)
             | _ \<Rightarrow> parse n (PExpr 7) ts)
          else if lvl = 7 then
            (case parse n (PExpr 8) ts of
               Some (GotExpr b ts') \<Rightarrow>
                 (case ts' of
                    TOp s # ts'' \<Rightarrow>
                      if s = ''**'' then
                        (case parse n (PExpr 6) ts'' of
                           Some (GotExpr e r) \<Rightarrow> Some (GotExpr (BinOp b PowOp e) r)
                         | _ \<Rightarrow> None)
                      else Some (GotExpr b ts')
                  | _ \<Rightarrow> Some (GotExpr b ts'))
             | _ \<Rightarrow> None)
          else
            (case ts of
               [] \<Rightarrow> None
             | TNum i # ts' \<Rightarrow> parse n (PTrailers (Constant (IntC i))) ts'
             | TName x # ts' \<Rightarrow> parse n (PTrailers (atom_of_name x)) ts'
             | TStr s # ts' \<Rightarrow>
                 (case ts' of
                    TStr s' # r \<Rightarrow> None
                  | _ \<Rightarrow> parse n (PTrailers (Constant (StrC s))) ts')
             | TOp s # ts' \<Rightarrow>
                 if s = ''('' then
                   (case parse n (PExpr 0) ts' of
                      Some (GotExpr e (TOp s' # r)) \<Rightarrow>
                        if s' = '')'' then parse n (PTrailers e) r else None
                    | _ \<Rightarrow> None)
                 else None)
      | PTail lvl l \<Rightarrow>
          (case ts of
             TOp s # ts' \<Rightarrow>
               (case binop_of lvl s of
                  Some bop \<Rightarrow>
                    (case parse n (PExpr (Suc lvl)) ts' of
                       Some (GotExpr r ts'') \<Rightarrow> parse n (PTail lvl (BinOp l bop r)) ts''
                     | _ \<Rightarrow> None)
                | None \<Rightarrow> Some (GotExpr l ts))
           | _ \<Rightarrow> Some (GotExpr l ts))
      | PTrailers e \<Rightarrow>
          (case ts of
             TOp s # ts' \<Rightarrow>
               if s = ''.'' then
                 (case ts' of
                    TName a # r \<Rightarrow> parse n (PTrailers (Attribute e a)) r
                  | _ \<Rightarrow> None)
               else if s = ''('' then
                 (case parse n (PArgs False) ts' of
                    Some (GotArgs args kws r) \<Rightarrow> parse n (PTrailers (Call e args kws)) r
                  | _ \<Rightarrow> None)
               else if s = ''['' then
                 (case parse n (PExpr 0) ts' of
                    Some (GotExpr i (TOp s' # r)) \<Rightarrow>
                      if s' = '']'' then parse n (PTrailers (Subscript e i)) r else None
                  | _ \<Rightarrow> None)
               else Some (GotExpr e ts)
           | _ \<Rightarrow> Some (GotExpr e ts))
      | PArgs seen_kw \<Rightarrow>
          (case ts of
             [] \<Rightarrow> None
           | t # ts' \<Rightarrow>
               if t = TOp '')'' then Some (GotArgs [] [] ts')
               else if (case t of TName k \<Rightarrow> take 1 ts' = [TOp ''=''] | _ \<Rightarrow> False) then
                 (case (t, parse n (PExpr 0) (drop 1 ts')) of
                    (TName k, Some (GotExpr v r)) \<Rightarrow>
                      (case after_arg (\<lambda>kw. parse n (PArgs kw)) True r of
                         Some (GotArgs args kws r') \<Rightarrow>
                           if k \<in> set [''True'', ''False'', ''None''] \<or> Some k \<in> fst ` set kws
                           then None
                           else Some (GotArgs args ((Some k, v) # kws) r')
                       | _ \<Rightarrow> None)
                  | _ \<Rightarrow> None)
               else if seen_kw then None
               else
                 (case parse n (PExpr 0) ts of
                    Some (GotExpr a r) \<Rightarrow>
                      (case after_arg (\<lambda>kw. parse n (PArgs kw)) False r of
                         Some (GotArgs args kws r') \<Rightarrow> Some (GotArgs (a # args) kws r')
                       | _ \<Rightarrow> None)
                  | _ \<Rightarrow> None)))"

definition py_parse :: "string \<Rightarrow> 'f expr option" where
  "py_parse s =
     (if take 1 s = '' '' then None
      else case tokenize (Suc (length s)) s of
             None \<Rightarrow> None
           | Some ts \<Rightarrow>
               (case parse (20 * Suc (length ts)) (PExpr 0) ts of
                  Some (GotExpr e []) \<Rightarrow> if height e \<le> 50 then Some e else None
                | _ \<Rightarrow> None))"

section \<open>The assistant's state and its collaborators\<close>

text \<open>
  The module-level dictionary \<open>memory\<close> is whatever \<open>json.load\<close> returned at start-up: a
  record (a dictionary from keys to values, each value kept as the text an f-string
  shows for it), or a JSON document that is not an object, on which item assignment
  and \<open>.get\<close> raise.
\<close>

datatype mem = Dict "string \<rightharpoonup> string" | NotADict

text \<open>
  The file at \<open>MEMORY_FILE\<close>: missing, unreadable (\<open>open\<close> raises), malformed (\<open>json.load\<close>
  raises), or holding a JSON document.
\<close>

datatype file_state = Missing | Unreadable | Malformed | Stored mem

text \<open>
  What \<open>open(MEMORY_FILE, "w")\<close> followed by \<open>json.dump\<close> does: both succeed; \<open>open\<close> raises
  and the file is left as it was; or \<open>open\<close> has truncated the file and the write raises,
  leaving a document that does not parse.
\<close>

datatype write_outcome = WriteOk | OpenFails | DumpFails

datatype warning = NewsKeyNotSet | WeatherKeyNotSet | EmailNotSet | SaveFailed

text \<open>
  The effects a call leaves behind, in order: text queued for speech by \<open>speak\<close>, a
  warning logged, an HTTP request, a call of the encyclopedia, a browser or program
  launched, a background thread started.
\<close>

datatype event =
    Say string
  | LogWarning warning
  | HttpGet string
  | WikipediaSummary string
  | GoogleSearch string
  | BrowserOpen string
  | OsSystem string
  | OsStartfile string
  | PlayOnYoutube string
  | AlarmThread string string
  | ReminderThread nat string

record world =
  memory :: mem
  storage :: file_state
  events :: "event list"

text \<open>
  The replies of the remote services, decoded and classified by the tests the handlers
  make on them, in the handlers' order.  The \<open>Raised\<close> variants stand for any exception
  inside the handler's \<open>try\<close> block (the request, the decoding, a missing key).
\<close>

datatype weather_reply =
    WeatherRaised
  | WeatherCurrent string string string string
  | WeatherError "string option"
  | WeatherNeither

datatype news_reply = NewsRaised | NewsOk "string option list" | NewsNotOk

datatype dictionary_reply = DictionaryRaised | DictionaryDefinition string | DictionaryNothing

record 'f env =
  host :: "'f pyhost"
  environ :: "string \<rightharpoonup> string"
  now_time :: string
  now_date :: string
  wikipedia_summary :: "string \<Rightarrow> string option"
  get_joke :: string
  weather_service :: "string \<Rightarrow> weather_reply"
  news_service :: "string \<Rightarrow> news_reply"
  dictionary_service :: "string \<Rightarrow> dictionary_reply"
  save_outcome :: write_outcome
  startfile_works :: bool

subsection \<open>Configuration\<close>

definition environ_get :: "(string \<rightharpoonup> string) \<Rightarrow> string \<Rightarrow> string \<Rightarrow> string" where
  \<comment> \<open>\<open>os.environ.get(key, default)\<close>\<close>
  "environ_get e key dflt = (case e key of Some v \<Rightarrow> v | None \<Rightarrow> dflt)"

definition NEWS_API_KEY :: "(string \<rightharpoonup> string) \<Rightarrow> string" where
  "NEWS_API_KEY e = environ_get e ''DELTA_NEWS_API_KEY'' ''0530443142104c65965ccb122f9395a4''"

definition WEATHER_API_KEY :: "(string \<rightharpoonup> string) \<Rightarrow> string" where
  "WEATHER_API_KEY e = environ_get e ''DELTA_WEATHER_API_KEY'' ''a201655e97c349c993883936250411''"

definition EMAIL_SENDER :: "(string \<rightharpoonup> string) \<Rightarrow> string" where
  "EMAIL_SENDER e = environ_get e ''DELTA_EMAIL_SENDER'' []"

definition EMAIL_PASSWORD :: "(string \<rightharpoonup> string) \<Rightarrow> string" where
  "EMAIL_PASSWORD e = environ_get e ''DELTA_EMAIL_PASSWORD'' []"

definition key_warnings :: "(string \<rightharpoonup> string) \<Rightarrow> warning list" where
  \<comment> \<open>the three tests the module makes once, when it is loaded\<close>
  "key_warnings e =
     (if NEWS_API_KEY e = [] then [NewsKeyNotSet] else [])
     @ (if WEATHER_API_KEY e = [] then [WeatherKeyNotSet] else [])
     @ (if EMAIL_SENDER e = [] \<or> EMAIL_PASSWORD e = [] then [EmailNotSet] else [])"

subsection \<open>Memory helpers\<close>

definition load_memory :: "file_state \<Rightarrow> mem" where
  "load_memory f = (case f of Stored m \<Rightarrow> m | _ \<Rightarrow> Dict Map.empty)"

definition save_memory :: "'f env \<Rightarrow> world \<Rightarrow> world" where
  "save_memory env w =
     (case save_outcome env of
        WriteOk \<Rightarrow> w\<lparr>storage := Stored (memory w)\<rparr>
      | OpenFails \<Rightarrow> w\<lparr>events := events w @ [LogWarning SaveFailed]\<rparr>
      | DumpFails \<Rightarrow> w\<lparr>storage := Malformed, events := events w @ [LogWarning SaveFailed]\<rparr>)"

definition startup :: "'f env \<Rightarrow> file_state \<Rightarrow> world" where
  \<comment> \<open>loading the module: the key warnings, then \<open>memory = _load_memory()\<close>\<close>
  "startup env f =
     \<lparr>memory = load_memory f, storage = f,
      events = map LogWarning (key_warnings (environ env))\<rparr>"

definition restart :: "'f env \<Rightarrow> world \<Rightarrow> world" where
  \<comment> \<open>a new process on the storage path the old one leaves behind\<close>
  "restart env w = startup env (storage w)"

subsection \<open>Speak\<close>

definition speak :: "world \<Rightarrow> string \<Rightarrow> string \<times> world" where
  \<comment> \<open>queues the text for speech and returns it; an empty text is returned at once\<close>
  "speak w text = (if text = [] then ([], w) else (text, w\<lparr>events := events w @ [Say text]\<rparr>))"

definition emit :: "event \<Rightarrow> world \<Rightarrow> world" where
  "emit ev w = w\<lparr>events := events w @ [ev]\<rparr>"

subsection \<open>Core features\<close>

definition tell_time :: "'f env \<Rightarrow> world \<Rightarrow> string \<times> world" where
  "tell_time env w = speak w (''The current time is '' @ now_time env)"

definition tell_date :: "'f env \<Rightarrow> world \<Rightarrow> string \<times> world" where
  "tell_date env w = speak w (''Today's date is '' @ now_date env)"

definition search_wikipedia :: "'f env \<Rightarrow> world \<Rightarrow> string \<Rightarrow> string \<times> world" where
  "search_wikipedia env w command =
     (let topic = strip (replace command ''wikipedia'' []) in
      if topic = [] then speak w ''What should I search on Wikipedia?''
      else
        let w1 = emit (WikipediaSummary topic) (snd (speak w ''Searching Wikipedia...'')) in
        case wikipedia_summary env topic of
          Some info \<Rightarrow> speak w1 info
        | None \<Rightarrow> speak w1 ''Couldn't find information on Wikipedia.'')"

definition search_google :: "world \<Rightarrow> string \<Rightarrow> string \<times> world" where
  "search_google w command =
     (let query = strip (replace (replace command ''search'' []) ''google'' []) in
      if query = [] then speak w ''What should I search for?''
      else speak (emit (GoogleSearch query) w) (''Searching Google for '' @ query))"

definition open_app_or_website :: "'f env \<Rightarrow> world \<Rightarrow> string \<Rightarrow> string \<times> world" where
  "open_app_or_website env w command =
     (let cmd = lower command in
      if contains ''youtube'' cmd then
        speak (emit (BrowserOpen ''https://www.youtube.com'') w) ''Opening YouTube.''
      else if contains ''google'' cmd then
        speak (emit (BrowserOpen ''https://www.google.com'') w) ''Opening Google.''
      else if contains ''notepad'' cmd then
        speak (emit (OsSystem ''notepad'') w) ''Opening Notepad.''
      else if contains ''chrome'' cmd then
        (if startfile_works env then
           speak (emit (OsStartfile
                          (''C:'' @ [CHR 0x5C] @ ''Program Files'' @ [CHR 0x5C] @ ''Google''
                           @ [CHR 0x5C] @ ''Chrome'' @ [CHR 0x5C] @ ''Application''
                           @ [CHR 0x5C] @ ''chrome.exe'')) w)
             ''Opening Chrome.''
         else speak w ''Unable to open Chrome. Please check the path.'')
      else
        let target0 = strip (replace command ''open '' []);
            target = (if target0 \<noteq> [] \<and> CHR ''.'' \<in> set target0 \<and> \<not> startswith target0 ''http''
                      then ''http://'' @ target0 else target0)
        in if startswith cmd ''open '' \<and> target \<noteq> [] then
             speak (emit (BrowserOpen target) w) (''Opening '' @ target)
           else speak w ''I can't open that yet.'')"

definition tell_joke :: "'f env \<Rightarrow> world \<Rightarrow> string \<times> world" where
  "tell_joke env w = speak w (get_joke env)"

definition weather_url :: "'f env \<Rightarrow> string \<Rightarrow> string" where
  "weather_url env city =
     ''http://api.weatherapi.com/v1/current.json?key='' @ WEATHER_API_KEY (environ env)
       @ ''&q='' @ city @ ''&aqi=no''"

definition get_weather :: "'f env \<Rightarrow> world \<Rightarrow> string \<Rightarrow> string \<times> world" where
  "get_weather env w city =
     (if WEATHER_API_KEY (environ env) = [] then
        speak w ''Weather is not configured. Set DELTA_WEATHER_API_KEY to enable weather.''
      else
        let w1 = emit (HttpGet (weather_url env city)) w in
        case weather_service env (weather_url env city) of
          WeatherCurrent cond temp hum wind \<Rightarrow>
            speak w1 (''The weather in '' @ city @ '' is '' @ cond @ '', temperature '' @ temp
                      @ [CHR 0xB0] @ ''C, humidity '' @ hum @ ''%, wind '' @ wind @ '' kph.'')
        | WeatherError msg \<Rightarrow>
            speak w1 (case msg of Some m \<Rightarrow> m | None \<Rightarrow> ''Unknown location.'')
        | WeatherNeither \<Rightarrow> speak w1 ''Couldn't fetch weather.''
        | WeatherRaised \<Rightarrow> speak w1 ''Weather lookup failed.'')"

definition news_url :: "'f env \<Rightarrow> string" where
  "news_url env =
     ''https://newsapi.org/v2/top-headlines?country=in&apiKey='' @ NEWS_API_KEY (environ env)"

fun speak_all :: "world \<Rightarrow> string list \<Rightarrow> world" where
  "speak_all w [] = w"
| "speak_all w (t # ts) = speak_all (snd (speak w t)) ts"

fun join :: "string \<Rightarrow> string list \<Rightarrow> string" where
  \<comment> \<open>\<open>sep.join(xs)\<close>\<close>
  "join sep [] = []"
| "join sep [x] = x"
| "join sep (x # y # ys) = x @ sep @ join sep (y # ys)"

definition get_news :: "'f env \<Rightarrow> world \<Rightarrow> string \<times> world" where
  "get_news env w =
     (if NEWS_API_KEY (environ env) = [] then
        speak w ''News is not configured. Set DELTA_NEWS_API_KEY to enable headlines.''
      else
        let w1 = emit (HttpGet (news_url env)) w in
        case news_service env (news_url env) of
          NewsOk articles \<Rightarrow>
            let items = take 5 articles in
            if items = [] then speak w1 ''No news found.''
            else
              let headlines =
                    map (\<lambda>(i, a). str_nat i @ ''. ''
                                    @ (case a of Some title \<Rightarrow> title | None \<Rightarrow> ''No title''))
                        (zip [1 ..< Suc (length items)] items)
              in (join [CHR 0x0A] headlines,
                  speak_all (snd (speak w1 ''Here are the top headlines:'')) headlines)
        | NewsNotOk \<Rightarrow> speak w1 ''Could not fetch news.''
        | NewsRaised \<Rightarrow> speak w1 ''News lookup failed.'')"

subsection \<open>Alarms and reminders\<close>

definition alarm_match_here :: "string \<Rightarrow> string option" where
  \<comment> \<open>the pattern \<open>(\d{1,2}:\d{2})\<close> at the start of the text: two digits are tried before one\<close>
  "alarm_match_here s =
     (if 5 \<le> length s \<and> is_digit (s ! 0) \<and> is_digit (s ! 1) \<and> s ! 2 = CHR '':''
         \<and> is_digit (s ! 3) \<and> is_digit (s ! 4) then Some (take 5 s)
      else if 4 \<le> length s \<and> is_digit (s ! 0) \<and> s ! 1 = CHR '':''
         \<and> is_digit (s ! 2) \<and> is_digit (s ! 3) then Some (take 4 s)
      else None)"

fun alarm_search :: "string \<Rightarrow> string option" where
  \<comment> \<open>\<open>re.search\<close>: the leftmost position where the pattern matches\<close>
  "alarm_search [] = None"
| "alarm_search (c # cs) =
     (case alarm_match_here (c # cs) of Some m \<Rightarrow> Some m | None \<Rightarrow> alarm_search cs)"

definition set_alarm :: "world \<Rightarrow> string \<Rightarrow> string \<times> world" where
  "set_alarm w command =
     (case alarm_search command of
        Some m \<Rightarrow>
          let alarm_time = format_02d (int_of_digits (takeWhile (\<lambda>c. c \<noteq> CHR '':'') m)) @ '':''
                           @ format_02d (int_of_digits (tl (dropWhile (\<lambda>c. c \<noteq> CHR '':'') m)))
          in speak (emit (AlarmThread alarm_time ''Alarm ringing'') w)
                   (''Alarm set for '' @ alarm_time)
      | None \<Rightarrow> speak w ''Please tell me the alarm time in HH:MM format.'')"

definition reminder_tail :: "string \<Rightarrow> string option" where
  \<comment> \<open>\<open> in (\d+)\s*minutes?\<close> at the start of the text; the answer is the group of digits\<close>
  "reminder_tail s =
     (let ds = takeWhile is_digit (drop 4 s);
          rest = dropWhile is_space (dropWhile is_digit (drop 4 s))
      in if startswith s '' in '' \<and> ds \<noteq> [] \<and> startswith rest ''minute'' then Some ds else None)"

fun reminder_action :: "string \<Rightarrow> string \<Rightarrow> (string \<times> string) option" where
  \<comment> \<open>\<open>(.+?)\<close> followed by the tail: the shortest non-empty run of characters other than a
      newline after which the tail matches; the first argument is the run read so far\<close>
  "reminder_action acc [] = None"
| "reminder_action acc (c # cs) =
     (if c = CHR 0x0A then None
      else case reminder_tail cs of
             Some ds \<Rightarrow> Some (acc @ [c], ds)
           | None \<Rightarrow> reminder_action (acc @ [c]) cs)"

fun reminder_search :: "string \<Rightarrow> (string \<times> string) option" where
  \<comment> \<open>\<open>re.search(r"remind me to (.+?) in (\d+)\s*minutes?", command)\<close>\<close>
  "reminder_search [] = None"
| "reminder_search (c # cs) =
     (case (if startswith (c # cs) ''remind me to ''
            then reminder_action [] (drop 13 (c # cs)) else None) of
        Some r \<Rightarrow> Some r
      | None \<Rightarrow> reminder_search cs)"

definition set_reminder :: "world \<Rightarrow> string \<Rightarrow> string \<times> world" where
  "set_reminder w command =
     (case reminder_search command of
        Some (action, ds) \<Rightarrow>
          speak (emit (ReminderThread (int_of_digits ds) (strip action)) w)
                (''Reminder set for '' @ str_nat (int_of_digits ds) @ '' minutes from now.'')
      | None \<Rightarrow> speak w ''Please say reminders like: remind me to buy milk in 10 minutes.'')"

subsection \<open>Definitions\<close>

definition get_definition :: "'f env \<Rightarrow> world \<Rightarrow> string \<Rightarrow> string \<times> world" where
  "get_definition env w word =
     (let url = ''https://api.dictionaryapi.dev/api/v2/entries/en/'' @ word;
          w1 = emit (HttpGet url) w
      in case dictionary_service env url of
           DictionaryDefinition d \<Rightarrow> speak w1 d
         | DictionaryNothing \<Rightarrow> speak w1 ''I couldn't find a definition.''
         | DictionaryRaised \<Rightarrow> speak w1 ''Definition lookup failed.'')"

section \<open>The command handler\<close>

definition weather_city_here :: "string \<Rightarrow> string option" where
  \<comment> \<open>what follows the word \<open>weather\<close> in the pattern \<open>weather(?: in| at)? ([a-zA-Z\s]+)\<close>: the
      optional \<open> in\<close> or \<open> at\<close> is tried first and given up if the rest then fails; the
      group is the longest run of letters and white space after the blank\<close>
  "weather_city_here rest =
     (let run = (\<lambda>s. case s of
                     c # t \<Rightarrow>
                       if c = CHR '' '' \<and> takeWhile (\<lambda>x. is_letter x \<or> is_space x) t \<noteq> []
                       then Some (takeWhile (\<lambda>x. is_letter x \<or> is_space x) t) else None
                   | [] \<Rightarrow> None)
      in case (if startswith rest '' in'' \<or> startswith rest '' at'' then run (drop 3 rest)
               else None) of
           Some g \<Rightarrow> Some g
         | None \<Rightarrow> run rest)"

fun weather_search :: "string \<Rightarrow> string option" where
  \<comment> \<open>\<open>re.search\<close> of that pattern: the leftmost position where it matches; the answer is
      group 1\<close>
  "weather_search [] = None"
| "weather_search (c # cs) =
     (case (if startswith (c # cs) ''weather'' then weather_city_here (drop 7 (c # cs))
            else None) of
        Some g \<Rightarrow> Some g
      | None \<Rightarrow> weather_search cs)"

definition str_val :: "'f pyhost \<Rightarrow> 'f val \<Rightarrow> pyerr + string" where
  \<comment> \<open>\<open>str(result)\<close>, as the f-string of the reply asks for it; an \<open>int\<close> of more digits
      than the host converts raises\<close>
  "str_val h v =
     (case v of
        IntV i \<Rightarrow>
          if int_max_str_digits h \<noteq> 0 \<and> int_max_str_digits h < length (str_nat (nat \<bar>i\<bar>))
          then Inl (ValueError ''Exceeds the limit for integer string conversion'')
          else Inr (str_int i)
      | BoolV b \<Rightarrow> Inr (if b then ''True'' else ''False'')
      | FuncV n \<Rightarrow> Inr (''<built-in function '' @ n @ ''>'')
      | _ \<Rightarrow> Inr (float_str h v))"

definition calculate :: "'f env \<Rightarrow> world \<Rightarrow> string \<Rightarrow> string \<times> world" where
  \<comment> \<open>the math branch: any exception inside its \<open>try\<close> is answered by the apology\<close>
  "calculate env w cmd =
     (let expr = strip (replace (replace cmd ''calculate'' []) ''what is'' []) in
      case safe_eval (host env) expr of
        Inr result \<Rightarrow>
          (case str_val (host env) result of
             Inr text \<Rightarrow> speak w (''The result is '' @ text)
           | Inl err \<Rightarrow> speak w ''I couldn't calculate that.'')
      | Inl err \<Rightarrow> speak w ''I couldn't calculate that.'')"

definition process_command :: "'f env \<Rightarrow> world \<Rightarrow> string \<Rightarrow> pyerr + string \<times> world" where
  "process_command env w command =
     (if command = [] then
        Inr (speak w ''I didn't hear anything. Please say that again or type your command.'')
      else
        let cmd = strip (lower command) in
        if startswith cmd ''call me '' \<or> startswith cmd ''my name is '' then
          (let name = strip (replace (replace cmd ''call me '' []) ''my name is '' []) in
           case memory w of
             NotADict \<Rightarrow> Inl TypeError
           | Dict m \<Rightarrow>
               let w1 = save_memory env (w\<lparr>memory := Dict (m(''name'' \<mapsto> capitalize name))\<rparr>)
               in Inr (speak w1 (''Okay, I'll call you '' @ capitalize name @ ''.'')))
        else if contains ''time'' cmd \<and> \<not> startswith cmd ''time in'' then Inr (tell_time env w)
        else if contains ''date'' cmd then Inr (tell_date env w)
        else if contains ''wikipedia'' cmd then Inr (search_wikipedia env w cmd)
        else if startswith cmd ''search '' \<or> contains ''google'' cmd then Inr (search_google w cmd)
        else if contains ''open'' cmd then Inr (open_app_or_website env w cmd)
        else if contains ''weather'' cmd then
          (case weather_search cmd of
             Some g \<Rightarrow> Inr (get_weather env w (strip g))
           | None \<Rightarrow> Inr (speak w ''Which city would you like the weather for?''))
        else if contains ''news'' cmd then Inr (get_news env w)
        else if contains ''email'' cmd then
          Inr (speak w
                 ''To send an email, please provide recipient, subject and message in the UI.'')
        else if contains ''joke'' cmd then Inr (tell_joke env w)
        else if contains ''your name'' cmd \<or> contains ''who are you'' cmd then
          Inr (speak w ''I am Delta, your personal AI assistant.'')
        else if contains ''my name'' cmd then
          (case memory w of
             NotADict \<Rightarrow> Inl AttributeError
           | Dict m \<Rightarrow>
               Inr (speak w (''Your name is ''
                             @ (case m ''name'' of Some n \<Rightarrow> n | None \<Rightarrow> ''not set yet'')
                             @ ''.'')))
        else if list_ex (\<lambda>x. contains x cmd) [''exit'', ''stop'', ''quit'', ''goodbye''] then
          Inr (speak w ''Goodbye. Shutting down.'')
        else if contains ''calculate'' cmd \<or> list_ex (\<lambda>ch. ch \<in> set cmd) ''+-*/%^''
                \<or> startswith cmd ''what is'' then
          Inr (calculate env w cmd)
        else if contains ''set alarm'' cmd \<or> contains ''alarm'' cmd then Inr (set_alarm w cmd)
        else if contains ''remind me'' cmd then Inr (set_reminder w cmd)
        else if startswith cmd ''define '' \<or> contains ''definition of'' cmd then
          (let word = strip (replace (replace cmd ''define '' []) ''definition of'' []) in
           if word \<noteq> [] then Inr (get_definition env w word)
           else Inr (speak w ''Which word should I define?''))
        else if contains ''play'' cmd \<and> contains ''youtube'' cmd then
          (let q = strip (replace (replace cmd ''play'' []) ''on youtube'' []) in
           if q \<noteq> [] then
             Inr (speak (emit (PlayOnYoutube q) w) (''Playing '' @ q @ '' on YouTube.''))
           else Inr (speak w ''What should I play?''))
        else
          Inr (''I didn't understand that. Say 'yes' to search the web.'',
               snd (speak w ''I didn't understand that. Should I search the web for it?'')))"

section \<open>The alarm thread\<close>

text \<open>
  What the thread started by \<open>set_alarm\<close> does, step by step: text it speaks, and the
  ten-second sleep after a reading of the clock that is not the alarm time.
\<close>

datatype step = Speaks string | Sleeps nat

text \<open>
  The loop reads the wall clock (\<open>datetime.now().strftime("%H:%M")\<close>) once per turn.
  The readings are the environment's: the function takes the readings the clock gives
  during the run, in order, and answers with the steps taken and whether the thread has
  returned.  A run whose readings are used up before the alarm time shows is still in
  its loop.
\<close>

fun alarm_loop :: "string \<Rightarrow> string \<Rightarrow> string list \<Rightarrow> step list \<times> bool" where
  "alarm_loop alarm_time message [] = ([], False)"
| "alarm_loop alarm_time message (now # later) =
     (if now = alarm_time then ((if message = [] then [] else [Speaks message]), True)
      else (let (steps, returned) = alarm_loop alarm_time message later
            in (Sleeps 10 # steps, returned)))"

definition alarm_thread :: "string \<Rightarrow> string \<Rightarrow> string list \<Rightarrow> step list \<times> bool" where
  "alarm_thread alarm_time message readings =
     (let (steps, returned) = alarm_loop alarm_time message readings
      in (Speaks (''Alarm set for '' @ alarm_time @ ''.'') # steps, returned))"

section \<open>A host and an environment to run examples\<close>

text \<open>
  \<open>ideal_host\<close> parses with \<open>py_parse\<close> and computes with real numbers in place of
  floats, exactly.  It serves to run the evaluator on concrete texts; nothing proved
  for every host depends on it.  The text of a float is given for whole numbers only.
  Its stack is that of an interpreter with the usual limit of 1000 frames, ten of them
  in use by the callers, before Python 3.12.
\<close>

definition parse_or_raise :: "string \<Rightarrow> pyerr + 'f expr" where
  "parse_or_raise s = (case py_parse s of Some e \<Rightarrow> Inr e | None \<Rightarrow> Inl SyntaxError)"

fun to_real :: "real val \<Rightarrow> real option" where
  "to_real (IntV i) = Some (of_int i)"
| "to_real (BoolV b) = Some (if b then 1 else 0)"
| "to_real (FloatV x) = Some x"
| "to_real _ = None"

definition ideal_binop :: "operator \<Rightarrow> real val \<Rightarrow> real val \<Rightarrow> pyerr + real val" where
  "ideal_binop oper l r =
     (case (to_real l, to_real r) of
        (Some a, Some b) \<Rightarrow>
          (case oper of
             Add \<Rightarrow> Inr (FloatV (a + b))
           | Sub \<Rightarrow> Inr (FloatV (a - b))
           | Mult \<Rightarrow> Inr (FloatV (a * b))
           | Div \<Rightarrow> if b = 0 then Inl ZeroDivisionError else Inr (FloatV (a / b))
           | FloorDiv \<Rightarrow>
               if b = 0 then Inl ZeroDivisionError else Inr (FloatV (of_int \<lfloor>a / b\<rfloor>))
           | Mod \<Rightarrow>
               if b = 0 then Inl ZeroDivisionError
               else Inr (FloatV (a - b * of_int \<lfloor>a / b\<rfloor>))
           | PowOp \<Rightarrow>
               if a = 0 \<and> b < 0 then Inl ZeroDivisionError
               else if 0 < a then Inr (FloatV (a powr b))
               else if a = 0 then Inr (FloatV (if b = 0 then 1 else 0))
               else if b = of_int \<lfloor>b\<rfloor> then Inr (FloatV ((- 1) ^ nat \<bar>\<lfloor>b\<rfloor>\<bar> * (- a) powr b))
               else Inr (ComplexV ((- a) powr b * cos (pi * b)) ((- a) powr b * sin (pi * b)))
           | _ \<Rightarrow> Inl TypeError)
      | _ \<Rightarrow> Inl TypeError)"

definition ideal_math :: "string \<Rightarrow> real val list \<Rightarrow> pyerr + real val" where
  "ideal_math n vs =
     (case map to_real vs of
        [Some x] \<Rightarrow>
          if n = ''sin'' then Inr (FloatV (sin x))
          else if n = ''cos'' then Inr (FloatV (cos x))
          else if n = ''tan'' then Inr (FloatV (tan x))
          else if n = ''sqrt'' then
            (if x < 0 then Inl (ValueError ''math domain error'') else Inr (FloatV (sqrt x)))
          else if n = ''log'' then
            (if x \<le> 0 then Inl (ValueError ''math domain error'') else Inr (FloatV (ln x)))
          else if n = ''log10'' then
            (if x \<le> 0 then Inl (ValueError ''math domain error'') else Inr (FloatV (log 10 x)))
          else if n = ''ceil'' then Inr (IntV \<lceil>x\<rceil>)
          else if n = ''floor'' then Inr (IntV \<lfloor>x\<rfloor>)
          else if n = ''fabs'' then Inr (FloatV \<bar>x\<bar>)
          else Inl TypeError
      | [Some x, Some b] \<Rightarrow>
          if n = ''log'' then
            (if x \<le> 0 \<or> b \<le> 0 then Inl (ValueError ''math domain error'')
             else if b = 1 then Inl ZeroDivisionError
             else Inr (FloatV (ln x / ln b)))
          else Inl TypeError
      | _ \<Rightarrow> Inl TypeError)"

definition ideal_neg :: "real val \<Rightarrow> real val" where
  "ideal_neg v =
     (case v of FloatV x \<Rightarrow> FloatV (- x) | ComplexV a b \<Rightarrow> ComplexV (- a) (- b) | _ \<Rightarrow> v)"

definition ideal_str :: "real val \<Rightarrow> string" where
  "ideal_str v =
     (case v of
        FloatV x \<Rightarrow> if x = of_int \<lfloor>x\<rfloor> then str_int \<lfloor>x\<rfloor> @ ''.0'' else ''<float>''
      | _ \<Rightarrow> ''<complex>'')"

definition ideal_host :: "real pyhost" where
  "ideal_host =
     \<lparr>ast_parse = parse_or_raise, math_pi = pi, math_e = exp 1, float_binop = ideal_binop,
      float_neg = ideal_neg, math_call = ideal_math, long_max = 2 ^ 63 - 1,
      float_str = ideal_str, int_max_str_digits = 4300, recursion_limit = 990,
      node_frames = (\<lambda>e. case e of Constant c \<Rightarrow> 1 | _ \<Rightarrow> 2), listcomp_frames = 1\<rparr>"

text \<open>
  \<open>offline_env\<close>: no environment variable is set (so the keys are the built-in ones),
  every remote service fails, and the memory file can be written.
\<close>

definition offline_env :: "real env" where
  "offline_env =
     \<lparr>host = ideal_host, environ = Map.empty, now_time = ''07:29 AM'',
      now_date = ''November 03, 2026'', wikipedia_summary = (\<lambda>topic. None),
      get_joke = ''Knock knock.'', weather_service = (\<lambda>url. WeatherRaised),
      news_service = (\<lambda>url. NewsRaised), dictionary_service = (\<lambda>url. DictionaryRaised),
      save_outcome = WriteOk, startfile_works = False\<rparr>"

definition fresh_world :: world where
  \<comment> \<open>a process with an empty record, no memory file and nothing done yet\<close>
  "fresh_world = \<lparr>memory = Dict Map.empty, storage = Missing, events = []\<rparr>"

section \<open>The spec's notion of a correct value\<close>

text \<open>
  The mathematically correct value of an expression built from integer literals, unary
  minus and the operators \<open>+ - * // % **\<close>, computed in the real numbers: \<open>//\<close> is the floor
  of the quotient, \<open>%\<close> the remainder that goes with it, \<open>**\<close> the power with a natural
  exponent.  There is no value where a divisor is zero, and none is given here where an
  exponent is negative or the expression uses anything else (the result is then a
  float).
\<close>

definition mathematical_binop :: "operator \<Rightarrow> real \<Rightarrow> real \<Rightarrow> real option" where
  "mathematical_binop oper a b =
     (case oper of
        Add \<Rightarrow> Some (a + b)
      | Sub \<Rightarrow> Some (a - b)
      | Mult \<Rightarrow> Some (a * b)
      | FloorDiv \<Rightarrow> if b = 0 then None else Some (of_int \<lfloor>a / b\<rfloor>)
      | Mod \<Rightarrow> if b = 0 then None else Some (a - b * of_int \<lfloor>a / b\<rfloor>)
      | PowOp \<Rightarrow> if 0 \<le> b \<and> b = of_int \<lfloor>b\<rfloor> then Some (a ^ nat \<lfloor>b\<rfloor>) else None
      | _ \<Rightarrow> None)"

fun mathematical_value :: "'f expr \<Rightarrow> real option" where
  "mathematical_value (Constant c) = (case c of IntC i \<Rightarrow> Some (of_int i) | _ \<Rightarrow> None)"
| "mathematical_value (BinOp l oper r) =
     (case (mathematical_value l, mathematical_value r) of
        (Some a, Some b) \<Rightarrow> mathematical_binop oper a b
      | _ \<Rightarrow> None)"
| "mathematical_value (UnaryOp oper x) =
     (if oper = USub then map_option uminus (mathematical_value x) else None)"
| "mathematical_value (Call func args keywords) = None"
| "mathematical_value (Name n) = None"
| "mathematical_value (Attribute x a) = None"
| "mathematical_value (Subscript x i) = None"
| "mathematical_value (OtherNode cls xs) = None"

section \<open>The spec's notion of a correct value, for the whole grammar\<close>

text \<open>
  The mathematical value of an expression of the spec's grammar, computed in the real
  numbers, together with a flag that says whether Python holds the result as an \<open>int\<close>
  (it does where integer literals are combined by \<open>+ - * // %\<close>, by \<open>**\<close> with a natural
  exponent, by unary minus, and for the results of \<open>ceil\<close>, \<open>floor\<close> and \<open>factorial\<close>).
  There is no value where mathematics has none: a zero divisor, zero to a negative
  power, a negative number to a power that is no integer, the square root of a
  negative number, the logarithm of a number that is not positive or to the base 1, the
  tangent where the cosine is zero, and the factorial of anything but a natural number
  given as an \<open>int\<close>, which must not exceed the largest C \<open>long\<close> (the first argument).
\<close>

definition real_binop :: "operator \<Rightarrow> real \<times> bool \<Rightarrow> real \<times> bool \<Rightarrow> (real \<times> bool) option" where
  "real_binop oper x y =
     (case (x, y) of
        ((a, ka), (b, kb)) \<Rightarrow>
          (case oper of
             Add \<Rightarrow> Some (a + b, ka \<and> kb)
           | Sub \<Rightarrow> Some (a - b, ka \<and> kb)
           | Mult \<Rightarrow> Some (a * b, ka \<and> kb)
           | Div \<Rightarrow> if b = 0 then None else Some (a / b, False)
           | FloorDiv \<Rightarrow> if b = 0 then None else Some (of_int \<lfloor>a / b\<rfloor>, ka \<and> kb)
           | Mod \<Rightarrow> if b = 0 then None else Some (a - b * of_int \<lfloor>a / b\<rfloor>, ka \<and> kb)
           | PowOp \<Rightarrow>
               if ka \<and> kb \<and> 0 \<le> b then Some (a ^ nat \<lfloor>b\<rfloor>, True)
               else if 0 < a then Some (a powr b, False)
               else if a = 0 then (if b < 0 then None else Some (if b = 0 then 1 else 0, False))
               else if b = of_int \<lfloor>b\<rfloor> then Some (a powi \<lfloor>b\<rfloor>, False)
               else None
           | _ \<Rightarrow> None))"

definition real_function :: "int \<Rightarrow> string \<Rightarrow> (real \<times> bool) list \<Rightarrow> (real \<times> bool) option" where
  "real_function L n xs =
     (case xs of
        [(x, k)] \<Rightarrow>
          if n = ''sin'' then Some (sin x, False)
          else if n = ''cos'' then Some (cos x, False)
          else if n = ''tan'' then (if cos x = 0 then None else Some (tan x, False))
          else if n = ''sqrt'' then (if x < 0 then None else Some (sqrt x, False))
          else if n = ''log'' then (if x \<le> 0 then None else Some (ln x, False))
          else if n = ''log10'' then (if x \<le> 0 then None else Some (log 10 x, False))
          else if n = ''ceil'' then Some (of_int \<lceil>x\<rceil>, True)
          else if n = ''floor'' then Some (of_int \<lfloor>x\<rfloor>, True)
          else if n = ''factorial'' then
            (if k \<and> 0 \<le> x \<and> x \<le> of_int L then Some (fact (nat \<lfloor>x\<rfloor>), True) else None)
          else if n = ''fabs'' then Some (\<bar>x\<bar>, False)
          else None
      | [(x, k), (b, kb)] \<Rightarrow>
          if n = ''log'' \<and> 0 < x \<and> 0 < b \<and> b \<noteq> 1 then Some (ln x / ln b, False) else None
      | _ \<Rightarrow> None)"

fun real_value :: "int \<Rightarrow> real expr \<Rightarrow> (real \<times> bool) option" where
  "real_value L (Constant c) =
     (case c of IntC i \<Rightarrow> Some (of_int i, True) | FloatC x \<Rightarrow> Some (x, False) | _ \<Rightarrow> None)"
| "real_value L (BinOp l oper r) =
     (case (real_value L l, real_value L r) of
        (Some x, Some y) \<Rightarrow> real_binop oper x y
      | _ \<Rightarrow> None)"
| "real_value L (UnaryOp oper x) =
     (if oper = USub then map_option (\<lambda>(a, k). (- a, k)) (real_value L x) else None)"
| "real_value L (Call func args keywords) =
     (case func of
        Name n \<Rightarrow>
          if n \<in> set SAFE_FUNCTIONS \<and> keywords = [] then
            (case those (map (real_value L) args) of
               Some xs \<Rightarrow> real_function L n xs
             | None \<Rightarrow> None)
          else None
      | _ \<Rightarrow> None)"
| "real_value L (Name n) =
     (if n = ''pi'' then Some (pi, False) else if n = ''e'' then Some (exp 1, False) else None)"
| "real_value L (Attribute x a) = None"
| "real_value L (Subscript x i) = None"
| "real_value L (OtherNode cls xs) = None"

definition number :: "real \<times> bool \<Rightarrow> real val" where
  \<comment> \<open>the value as the evaluator holds it on a host whose floats are the real numbers\<close>
  "number x = (case x of (r, k) \<Rightarrow> if k then IntV \<lfloor>r\<rfloor> else FloatV r)"


section \<open>Binary floating point\<close>

text \<open>
  The floats of a real host are binary: a finite float is a whole number times a power
  of two.
\<close>

datatype binary_float = Finite int int | Infinity bool | NaN


fun ones :: "nat \<Rightarrow> 'f expr" where
  \<comment> \<open>the tree of \<open>0 + 1 + ... + 1\<close> with \<open>n\<close> additions, which associate to the left\<close>
  "ones 0 = Constant (IntC 0)"
| "ones (Suc n) = BinOp (ones n) Add (Constant (IntC 1))"

section \<open>Running the definitions\<close>

lemmas char_class_defs = is_space_def is_digit_def is_letter_def is_lower_letter_def
  is_upper_letter_def is_ident_char_def

lemmas str_defs = lower_def lower_char_def upper_char_def strip_def lstrip_def rstrip_def
  replace_def capitalize_def

lemmas tokenize_defs = py_keywords_def two_char_ops_def one_char_ops_def int_of_digits_def
  digit_val_def Let_def

lemmas parse_defs = binop_of_def unaryop_of_def atom_of_name_def after_arg_def numeral_eq_Suc

lemmas eval_defs = ALLOWED_OPERATORS_def ALLOWED_OPERATORS_unary_def py_binop_def py_neg_def
  int_binop_def SAFE_NAMES_def SAFE_FUNCTIONS_def py_call_def call_math_def arity_ok_def
  unsupported_def

lemma ideal_host_fields:
  "ast_parse ideal_host = parse_or_raise"
  "math_pi ideal_host = pi"
  "math_e ideal_host = exp 1"
  "float_binop ideal_host = ideal_binop"
  "float_neg ideal_host = ideal_neg"
  "math_call ideal_host = ideal_math"
  "long_max ideal_host = 2 ^ 63 - 1"
  "float_str ideal_host = ideal_str"
  "int_max_str_digits ideal_host = 4300"
  by (simp_all add: ideal_host_def)

lemma ideal_stack:
  "recursion_limit ideal_host = 990"
  "listcomp_frames ideal_host = 1"
  "node_frames ideal_host (Constant c) = 1"
  "node_frames ideal_host (BinOp l oper r) = 2"
  "node_frames ideal_host (UnaryOp uop x) = 2"
  "node_frames ideal_host (Call func args kws) = 2"
  "node_frames ideal_host (Name n) = 2"
  "node_frames ideal_host (Attribute x a) = 2"
  "node_frames ideal_host (Subscript x i) = 2"
  "node_frames ideal_host (OtherNode cls xs) = 2"
  by (simp_all add: ideal_host_def)

lemmas ideal_defs = safe_eval_def ideal_host_fields ideal_stack parse_or_raise_def ideal_math_def
  ideal_binop_def ideal_str_def

lemma str_nat_fuel_numeral:
  "str_nat_fuel (numeral k) n =
     (if n < 10 then [digit_char n]
      else str_nat_fuel (pred_numeral k) (n div 10) @ [digit_char n])"
  by (simp add: numeral_eq_Suc)

lemmas show_defs = str_nat_def str_int_def format_02d_def digit_char_def int_of_digits_def
  digit_val_def str_nat_fuel_numeral str_val_def

lemmas route_defs = process_command_def str_defs char_class_defs Let_def

subsection \<open>The trees of some expressions\<close>




lemma parse_sqrt:
  "py_parse ''sqrt(16)'' = Some (Call (Name ''sqrt'') [Constant (IntC 16)] [])"
  unfolding py_parse_def by (simp add: char_class_defs tokenize_defs parse_defs)

lemma parse_caret:
  "py_parse ''2^3'' = Some (BinOp (Constant (IntC 2)) BitXor (Constant (IntC 3)))"
  unfolding py_parse_def by (simp add: char_class_defs tokenize_defs parse_defs)

lemma parse_double_star:
  "py_parse ''2**3'' = Some (BinOp (Constant (IntC 2)) PowOp (Constant (IntC 3)))"
  unfolding py_parse_def by (simp add: char_class_defs tokenize_defs parse_defs)

lemma parse_bare_name: "py_parse ''sin'' = Some (Name ''sin'')"
  unfolding py_parse_def by (simp add: char_class_defs tokenize_defs parse_defs)

lemma parse_import:
  "py_parse ''__import__('os')'' =
     Some (Call (Name ''__import__'') [Constant (StrC ''os'')] [])"
  unfolding py_parse_def by (simp add: char_class_defs tokenize_defs parse_defs)

lemma parse_keyword_call:
  "py_parse ''sin(0, x=__import__('os'))'' =
     Some (Call (Name ''sin'') [Constant (IntC 0)]
             [(Some ''x'', Call (Name ''__import__'') [Constant (StrC ''os'')] [])])"
  unfolding py_parse_def by (simp add: char_class_defs tokenize_defs parse_defs)

section \<open>Properties of the evaluator\<close>

subsection \<open>One kind of failure\<close>

lemma safe_eval_single_failure:
  "(\<exists>v. safe_eval h s = Inr v) \<or> safe_eval h s = Inl (ValueError ''Invalid expression'')"
  by (simp add: safe_eval_def split: sum.splits)

lemma calculate_apology:
  "safe_eval (host env) (strip (replace (replace cmd ''calculate'' []) ''what is'' [])) = Inl err
   \<Longrightarrow> calculate env w cmd = speak w ''I couldn't calculate that.''"
  by (simp add: calculate_def)

lemma arithmetic_faults:
  "fits_stack h d (BinOp (Constant (IntC a)) Div (Constant (IntC 0))) \<Longrightarrow>
   eval_node h d (BinOp (Constant (IntC a)) Div (Constant (IntC 0))) = Inl ZeroDivisionError"
  "fits_stack h d (BinOp (Constant (IntC a)) FloorDiv (Constant (IntC 0))) \<Longrightarrow>
   eval_node h d (BinOp (Constant (IntC a)) FloorDiv (Constant (IntC 0))) = Inl ZeroDivisionError"
  "fits_stack h d (BinOp (Constant (IntC a)) Mod (Constant (IntC 0))) \<Longrightarrow>
   eval_node h d (BinOp (Constant (IntC a)) Mod (Constant (IntC 0))) = Inl ZeroDivisionError"
  "fits_stack h d (Call (Name ''factorial'') [UnaryOp USub (Constant (IntC 1))] []) \<Longrightarrow>
   eval_node h d (Call (Name ''factorial'') [UnaryOp USub (Constant (IntC 1))] []) =
     Inl (ValueError ''factorial() not defined for negative values'')"
  by (simp_all add: eval_defs)

lemma arithmetic_faults_are_reported_alike:
  "safe_eval ideal_host ''1 / 0'' = Inl (ValueError ''Invalid expression'')"
  "safe_eval ideal_host ''1 % 0'' = Inl (ValueError ''Invalid expression'')"
  "safe_eval ideal_host ''factorial(-1)'' = Inl (ValueError ''Invalid expression'')"
  "safe_eval ideal_host ''sqrt(-1)'' = Inl (ValueError ''Invalid expression'')"
  unfolding safe_eval_def ideal_host_fields parse_or_raise_def py_parse_def
  by (simp_all add: char_class_defs tokenize_defs parse_defs eval_defs ideal_math_def
        ideal_host_fields ideal_stack)

subsection \<open>What a successful evaluation has checked\<close>

lemma eval_args_passes_checks:
  "(\<And>a v. a \<in> set args \<Longrightarrow> eval_node h d a = Inr v \<Longrightarrow> passes_checks a)
   \<Longrightarrow> eval_args h d args = Inr vs \<Longrightarrow> list_all passes_checks args"
proof (induction args arbitrary: vs)
  case Nil
  then show ?case by simp
next
  case (Cons a args)
  from Cons.prems(2) obtain v vs' where v: "eval_node h d a = Inr v"
    and vs': "eval_args h d args = Inr vs'"
    by (auto split: sum.splits)
  from Cons.prems(1) v have "passes_checks a" by simp
  moreover from Cons.IH Cons.prems(1) vs' have "list_all passes_checks args" by simp
  ultimately show ?case by simp
qed

lemma eval_node_passes_checks: "eval_node h d e = Inr v \<Longrightarrow> passes_checks e"
proof (induction e arbitrary: v d)
  case (Constant c)
  then show ?case by (cases c) (simp_all split: if_splits)
next
  case (BinOp l oper r)
  then show ?case
    by (auto simp: ALLOWED_OPERATORS_def unsupported_def split: sum.splits if_splits)
next
  case (UnaryOp oper x)
  then show ?case
    by (auto simp: ALLOWED_OPERATORS_unary_def unsupported_def split: sum.splits if_splits)
next
  case (Call func args kws)
  from Call.prems obtain n where n: "func = Name n"
    by (cases func) (simp_all add: unsupported_def split: if_splits)
  from Call.prems n obtain callee vs where c: "SAFE_NAMES h n = Some callee"
    and vs: "eval_args h (Suc d + listcomp_frames h) args = Inr vs"
    and r: "py_call h callee vs = Inr v"
    by (auto simp: unsupported_def split: option.splits sum.splits if_splits)
  from c r have "n \<in> set SAFE_FUNCTIONS"
    by (auto simp: SAFE_NAMES_def py_call_def split: if_splits)
  moreover from Call.IH(2) vs have "list_all passes_checks args"
    by (intro eval_args_passes_checks) auto
  ultimately show ?case using n by simp
next
  case (Name n)
  then show ?case
    by (auto simp: SAFE_NAMES_def unsupported_def split: if_splits)
qed (simp_all add: unsupported_def split: if_splits)

lemma refused_outside_checks:
  "ast_parse h s = Inr e \<Longrightarrow> \<not> passes_checks e
   \<Longrightarrow> safe_eval h s = Inl (ValueError ''Invalid expression'')"
  using eval_node_passes_checks[of h 0 e]
  by (auto simp: safe_eval_def split: sum.splits)

lemma import_is_refused:
  "safe_eval ideal_host ''__import__('os')'' = Inl (ValueError ''Invalid expression'')"
  by (simp add: ideal_defs parse_import eval_defs)

lemma attribute_and_subscript_are_refused:
  "eval_node h d (Attribute x a) \<noteq> Inr v"
  "eval_node h d (Subscript x i) \<noteq> Inr v"
  "eval_node h d (Call (Attribute x a) args kws) \<noteq> Inr v"
  by (simp_all add: unsupported_def)

lemma bool_literal_accepted:
  "fits_stack h d (Constant (BoolC b)) \<Longrightarrow> eval_node h d (Constant (BoolC b)) = Inr (BoolV b)"
  by simp

subsection \<open>Exact integer arithmetic\<close>



subsection \<open>The stack\<close>



subsection \<open>Exact arithmetic on the whole grammar\<close>

lemma number_int: "number (of_int a, True) = IntV a"
  by (simp add: number_def)





















section \<open>The claims about the evaluator\<close>

text \<open>
  C1.  An expression that names an identifier outside the allow-list is not always
  refused: the keyword arguments of a call are never visited.  For
  \<open>sin(0, x=__import__('os'))\<close> the tree lies outside the restricted grammar, yet the
  evaluator answers with the value of \<open>sin(0)\<close>, and the command handler reports a
  result.  (The keyword's value is not evaluated either: no name outside \<open>SAFE_NAMES\<close> is
  resolved.)
\<close>

theorem keyword_argument_is_not_refused:
  "py_parse ''sin(0, x=__import__('os'))'' =
     Some (Call (Name ''sin'') [Constant (IntC 0)]
             [(Some ''x'', Call (Name ''__import__'') [Constant (StrC ''os'')] [])
              :: string option \<times> real expr])
   \<and> \<not> restricted_grammar
         (Call (Name ''sin'') [Constant (IntC 0)]
            [(Some ''x'', Call (Name ''__import__'') [Constant (StrC ''os'')] [])
             :: string option \<times> real expr])
   \<and> safe_eval ideal_host ''sin(0, x=__import__('os'))'' = Inr (FloatV 0)
   \<and> process_command offline_env fresh_world ''calculate sin(0, x=__import__('os'))'' =
       Inr (''The result is 0.0'', fresh_world\<lparr>events := [Say ''The result is 0.0'']\<rparr>)"
proof -
  have e: "safe_eval ideal_host ''sin(0, x=__import__('os'))'' = Inr (FloatV 0)"
    by (simp add: ideal_defs parse_keyword_call eval_defs)
  have "strip (replace (replace (strip (lower ''calculate sin(0, x=__import__('os'))''))
            ''calculate'' []) ''what is'' []) = ''sin(0, x=__import__('os'))''"
    by (simp add: str_defs char_class_defs)
  then have "calculate offline_env fresh_world
               (strip (lower ''calculate sin(0, x=__import__('os'))'')) =
             (''The result is 0.0'', fresh_world\<lparr>events := [Say ''The result is 0.0'']\<rparr>)"
    using e
    by (simp add: calculate_def offline_env_def fresh_world_def speak_def show_defs
          ideal_host_fields ideal_str_def)
  moreover have "process_command offline_env fresh_world ''calculate sin(0, x=__import__('os'))''
      = Inr (calculate offline_env fresh_world
               (strip (lower ''calculate sin(0, x=__import__('os'))'')))"
    by (simp add: route_defs)
  ultimately show ?thesis
    using e parse_keyword_call by simp
qed

subsection \<open>Three ways to miss the mathematical value\<close>





lemma deep_sum_is_refused:
  "recursion_limit h < d + n + node_frames h (Constant (IntC 0))
   \<Longrightarrow> eval_node h d (ones n) = Inl RecursionError"
  by (induction n arbitrary: d) simp_all

lemma sqrt_sixteen: "safe_eval ideal_host ''sqrt(16)'' = Inr (FloatV 4)"
proof -
  have "sqrt 16 = (4::real)" using real_sqrt_abs[of 4] by simp
  then show ?thesis
    by (simp add: ideal_defs parse_sqrt eval_defs)
qed

lemma sqrt_is_the_hosts:
  "ast_parse h s = Inr (Call (Name ''sqrt'') [Constant (IntC n)] kws)
   \<Longrightarrow> fits_stack h 0 (Call (Name ''sqrt'') [Constant (IntC n)] kws)
   \<Longrightarrow> safe_eval h s =
       (case math_call h ''sqrt'' [IntV n] of
          Inr v \<Rightarrow> Inr v | Inl err \<Rightarrow> Inl (ValueError ''Invalid expression''))"
  by (simp add: safe_eval_def eval_defs split: sum.splits)

lemma mathematical_value_is_real_value:
  "mathematical_value e = Some r \<Longrightarrow> real_value L e = Some (r, True)"
proof (induction e arbitrary: r)
  case (Constant c)
  then show ?case by (cases c) auto
next
  case (BinOp l oper r')
  from BinOp.prems obtain a b where a: "mathematical_value l = Some a"
    and b: "mathematical_value r' = Some b" and m: "mathematical_binop oper a b = Some r"
    by (auto split: option.splits)
  from m have "real_binop oper (a, True) (b, True) = Some (r, True)"
    by (cases oper) (auto simp: mathematical_binop_def real_binop_def split: if_splits)
  with BinOp.IH(1)[OF a] BinOp.IH(2)[OF b] show ?case by simp
next
  case (UnaryOp oper x)
  then show ?case by (auto split: if_splits)
qed simp_all




text \<open>
  C4.  The text \<open>2^3\<close> parses to a \<open>BinOp\<close> with the operator class \<open>BitXor\<close>, which is not
  a key of \<open>ALLOWED_OPERATORS\<close>: the evaluation fails and the command handler, which
  takes \<open>^\<close> for an arithmetic symbol, answers with the apology.  Power is \<open>**\<close>.
\<close>

theorem caret_is_not_power:
  "py_parse ''2^3'' = Some (BinOp (Constant (IntC 2)) BitXor (Constant (IntC 3)) :: real expr)
   \<and> safe_eval ideal_host ''2^3'' = Inl (ValueError ''Invalid expression'')
   \<and> process_command offline_env fresh_world ''2^3'' =
       Inr (''I couldn't calculate that.'',
            fresh_world\<lparr>events := [Say ''I couldn't calculate that.'']\<rparr>)
   \<and> safe_eval ideal_host ''2**3'' = Inr (IntV 8)"
proof -
  have e: "safe_eval ideal_host ''2^3'' = Inl (ValueError ''Invalid expression'')"
    by (simp add: ideal_defs parse_caret eval_defs)
  have "process_command offline_env fresh_world ''2^3'' =
          Inr (calculate offline_env fresh_world ''2^3'')"
    by (simp add: route_defs)
  moreover have "calculate offline_env fresh_world ''2^3'' =
      (''I couldn't calculate that.'',
       fresh_world\<lparr>events := [Say ''I couldn't calculate that.'']\<rparr>)"
    using e by (simp add: calculate_def str_defs char_class_defs offline_env_def
                  fresh_world_def speak_def)
  moreover have "safe_eval ideal_host ''2**3'' = Inr (IntV 8)"
    by (simp add: ideal_defs parse_double_star eval_defs)
  ultimately show ?thesis using e parse_caret by simp
qed

lemma bitxor_never_evaluates: "eval_node h d (BinOp l BitXor r) \<noteq> Inr v"
  by (simp add: ALLOWED_OPERATORS_def unsupported_def split: sum.splits)

text \<open>
  C10.  The evaluator does not always return a number: a bare function name of the
  allow-list is looked up in \<open>SAFE_NAMES\<close> like a constant, and the function object is
  the result, which the command handler then reports.
\<close>

theorem bare_function_name_is_a_result:
  "safe_eval ideal_host ''sin'' = Inr (FuncV ''sin'')
   \<and> process_command offline_env fresh_world ''calculate sin'' =
       Inr (''The result is <built-in function sin>'',
            fresh_world\<lparr>events := [Say ''The result is <built-in function sin>'']\<rparr>)"
proof -
  have e: "safe_eval ideal_host ''sin'' = Inr (FuncV ''sin'')"
    by (simp add: ideal_defs parse_bare_name eval_defs)
  have "process_command offline_env fresh_world ''calculate sin'' =
          Inr (calculate offline_env fresh_world ''calculate sin'')"
    by (simp add: route_defs)
  moreover have "strip (replace (replace ''calculate sin'' ''calculate'' []) ''what is'' [])
                 = ''sin''"
    by (simp add: str_defs char_class_defs)
  then have "calculate offline_env fresh_world ''calculate sin'' =
      (''The result is <built-in function sin>'',
       fresh_world\<lparr>events := [Say ''The result is <built-in function sin>'']\<rparr>)"
    using e by (simp add: calculate_def offline_env_def fresh_world_def speak_def show_defs)
  ultimately show ?thesis using e by simp
qed

section \<open>The claims about the command handler\<close>

text \<open>
  C2.  An utterance that contains \<open>weather\<close> is answered by the weather branch, which
  stands before the math branch: \<open>what is the weather in paris\<close> is a call of
  \<open>get_weather\<close> on the city \<open>paris\<close>, \<open>weather in new york\<close> one on \<open>new york\<close>, and the
  bare \<open>weather\<close> is answered by the question for the city, with no other effect (no
  request is sent).
\<close>

theorem weather_routing:
  "process_command env w ''what is the weather in paris'' = Inr (get_weather env w ''paris'')
   \<and> process_command env w ''weather in new york'' = Inr (get_weather env w ''new york'')
   \<and> process_command env w ''weather'' =
       Inr (''Which city would you like the weather for?'',
            w\<lparr>events := events w @ [Say ''Which city would you like the weather for?'']\<rparr>)"
  by (simp add: route_defs weather_city_here_def speak_def)

lemma weather_request_names_the_city:
  "WEATHER_API_KEY (environ env) \<noteq> [] \<Longrightarrow>
   HttpGet (''http://api.weatherapi.com/v1/current.json?key='' @ WEATHER_API_KEY (environ env)
            @ ''&q=paris&aqi=no'')
     \<in> set (events (snd (get_weather env w ''paris'')))"
  by (simp add: get_weather_def weather_url_def emit_def speak_def Let_def
        split: weather_reply.splits)

text \<open>
  C5.  The test for an empty utterance is made on the text as it comes, before it is
  stripped.  The empty text is answered at once (\<open>empty_utterance\<close>); a text of white
  space only is not: it is stripped to the empty command, no trigger matches it, and
  the answer is the fallback.
\<close>

lemma empty_utterance:
  "process_command env w [] =
     Inr (''I didn't hear anything. Please say that again or type your command.'',
          w\<lparr>events := events w
             @ [Say ''I didn't hear anything. Please say that again or type your command.'']\<rparr>)"
  by (simp add: process_command_def speak_def)

lemma lower_char_space: "is_space c \<Longrightarrow> lower_char c = c"
  unfolding is_space_def
  by (elim disjE | simp only: set_simps insert_iff empty_iff)+ (simp_all add: lower_char_def)

lemma strip_lower_blank: "list_all is_space s \<Longrightarrow> strip (lower s) = []"
proof -
  assume a: "list_all is_space s"
  then have l: "lower s = s" by (induction s) (simp_all add: lower_def lower_char_space)
  from a have d: "dropWhile is_space s = []" by (induction s) simp_all
  show ?thesis unfolding strip_def lstrip_def rstrip_def l d by simp
qed

theorem whitespace_only_is_not_short_circuited:
  "command \<noteq> [] \<Longrightarrow> list_all is_space command \<Longrightarrow>
   process_command env w command =
     Inr (''I didn't understand that. Say 'yes' to search the web.'',
          w\<lparr>events := events w
             @ [Say ''I didn't understand that. Should I search the web for it?'']\<rparr>)"
  by (simp add: process_command_def strip_lower_blank speak_def)

theorem whitespace_only_is_not_short_circuited_witness:
  "''   '' \<noteq> [] \<and> list_all is_space ''   ''
   \<and> process_command offline_env fresh_world ''   '' =
       Inr (''I didn't understand that. Say 'yes' to search the web.'',
            fresh_world\<lparr>events := events fresh_world
               @ [Say ''I didn't understand that. Should I search the web for it?'']\<rparr>)"
  using whitespace_only_is_not_short_circuited[of "''   ''" offline_env fresh_world]
  by (simp add: is_space_def)

lemma call_me_ada:
  "memory w = Dict m \<Longrightarrow>
   process_command env w ''call me Ada'' =
     Inr (speak (save_memory env (w\<lparr>memory := Dict (m(''name'' \<mapsto> ''Ada''))\<rparr>))
            ''Okay, I'll call you Ada.'')"
  by (simp add: route_defs)

lemma my_name:
  "memory w = Dict m \<Longrightarrow>
   process_command env w ''my name'' =
     Inr (speak w (''Your name is ''
                   @ (case m ''name'' of Some n \<Rightarrow> n | None \<Rightarrow> ''not set yet'') @ ''.''))"
  by (simp add: route_defs)

text \<open>
  C6, as the code has it.  In a process whose memory is a record, \<open>call me Ada\<close> stores
  the name \<open>Ada\<close> in the record and makes one attempt to write the record to the memory
  file before it answers: the file then holds the record, or where it cannot be opened
  it stays as it was, or where the write breaks off it is left malformed, and in both
  cases of failure one warning is logged and nothing else happens.  A following
  \<open>my name\<close> is answered with \<open>Ada\<close> whatever the write did.  Where the write succeeded, a
  new process on the same file answers \<open>my name\<close> with \<open>Ada\<close> too, whatever its
  environment.
\<close>

theorem name_round_trip:
  assumes "memory w = Dict m"
  shows "\<exists>w1. process_command env w ''call me Ada'' = Inr (''Okay, I'll call you Ada.'', w1)
           \<and> memory w1 = Dict (m(''name'' \<mapsto> ''Ada''))
           \<and> storage w1 =
               (case save_outcome env of
                  WriteOk \<Rightarrow> Stored (Dict (m(''name'' \<mapsto> ''Ada'')))
                | OpenFails \<Rightarrow> storage w
                | DumpFails \<Rightarrow> Malformed)
           \<and> events w1 =
               events w
               @ (case save_outcome env of WriteOk \<Rightarrow> [] | _ \<Rightarrow> [LogWarning SaveFailed])
               @ [Say ''Okay, I'll call you Ada.'']
           \<and> process_command env w1 ''my name'' =
               Inr (''Your name is Ada.'', w1\<lparr>events := events w1 @ [Say ''Your name is Ada.'']\<rparr>)
           \<and> (save_outcome env = WriteOk \<longrightarrow>
                process_command env' (restart env' w1) ''my name'' =
                  Inr (''Your name is Ada.'',
                       (restart env' w1)\<lparr>events := events (restart env' w1)
                                                     @ [Say ''Your name is Ada.'']\<rparr>))"
proof -
  let ?m = "m(''name'' \<mapsto> ''Ada'')"
  let ?w1 = "snd (speak (save_memory env (w\<lparr>memory := Dict ?m\<rparr>)) ''Okay, I'll call you Ada.'')"
  have m1: "memory ?w1 = Dict ?m"
    by (simp add: speak_def save_memory_def split: write_outcome.splits)
  have s1: "storage ?w1 =
              (case save_outcome env of
                 WriteOk \<Rightarrow> Stored (Dict ?m) | OpenFails \<Rightarrow> storage w | DumpFails \<Rightarrow> Malformed)"
    by (simp add: speak_def save_memory_def split: write_outcome.splits)
  have e1: "events ?w1 =
              events w
              @ (case save_outcome env of WriteOk \<Rightarrow> [] | _ \<Rightarrow> [LogWarning SaveFailed])
              @ [Say ''Okay, I'll call you Ada.'']"
    by (simp add: speak_def save_memory_def split: write_outcome.splits)
  have c: "process_command env w ''call me Ada'' = Inr (''Okay, I'll call you Ada.'', ?w1)"
    using call_me_ada[OF assms, of env] by (simp add: speak_def)
  have n: "process_command env ?w1 ''my name'' =
      Inr (''Your name is Ada.'', ?w1\<lparr>events := events ?w1 @ [Say ''Your name is Ada.'']\<rparr>)"
    using my_name[OF m1, of env] by (simp add: speak_def)
  have r: "process_command env' (restart env' ?w1) ''my name'' =
      Inr (''Your name is Ada.'',
           (restart env' ?w1)\<lparr>events := events (restart env' ?w1) @ [Say ''Your name is Ada.'']\<rparr>)"
    if ok: "save_outcome env = WriteOk"
  proof -
    from s1 ok have "memory (restart env' ?w1) = Dict ?m"
      by (simp add: restart_def startup_def load_memory_def)
    from my_name[OF this, of env'] show ?thesis by (simp add: speak_def)
  qed
  from c m1 s1 e1 n r show ?thesis by blast
qed

theorem name_round_trip_witness:
  "memory fresh_world = Dict Map.empty \<and> save_outcome offline_env = WriteOk
   \<and> (\<exists>w1. process_command offline_env fresh_world ''call me Ada'' =
              Inr (''Okay, I'll call you Ada.'', w1)
           \<and> memory w1 = Dict [''name'' \<mapsto> ''Ada'']
           \<and> storage w1 = Stored (Dict [''name'' \<mapsto> ''Ada''])
           \<and> events w1 = [Say ''Okay, I'll call you Ada.'']
           \<and> process_command offline_env w1 ''my name'' =
               Inr (''Your name is Ada.'', w1\<lparr>events := events w1 @ [Say ''Your name is Ada.'']\<rparr>)
           \<and> process_command offline_env (restart offline_env w1) ''my name'' =
               Inr (''Your name is Ada.'',
                    (restart offline_env w1)\<lparr>events := events (restart offline_env w1)
                                                  @ [Say ''Your name is Ada.'']\<rparr>))"
proof -
  have a: "memory fresh_world = Dict Map.empty" by (simp add: fresh_world_def)
  have b: "save_outcome offline_env = WriteOk" by (simp add: offline_env_def)
  have e: "events fresh_world = []" by (simp add: fresh_world_def)
  from name_round_trip[OF a, of offline_env offline_env] obtain w1 where
    "process_command offline_env fresh_world ''call me Ada'' = Inr (''Okay, I'll call you Ada.'', w1)"
    "memory w1 = Dict [''name'' \<mapsto> ''Ada'']"
    "storage w1 = Stored (Dict [''name'' \<mapsto> ''Ada''])"
    "events w1 = [Say ''Okay, I'll call you Ada.'']"
    "process_command offline_env w1 ''my name'' =
       Inr (''Your name is Ada.'', w1\<lparr>events := events w1 @ [Say ''Your name is Ada.'']\<rparr>)"
    "process_command offline_env (restart offline_env w1) ''my name'' =
       Inr (''Your name is Ada.'',
            (restart offline_env w1)\<lparr>events := events (restart offline_env w1)
                                          @ [Say ''Your name is Ada.'']\<rparr>)"
    unfolding b e by auto
  with a b show ?thesis by blast
qed

text \<open>
  C6 as stated fails where the memory file cannot be opened for writing: the failure
  is logged, the file stays as it was, and the new process does not know the name.
\<close>

theorem name_is_lost_when_the_write_fails:
  "process_command (offline_env\<lparr>save_outcome := OpenFails\<rparr>) fresh_world ''call me Ada'' =
     Inr (''Okay, I'll call you Ada.'',
          \<lparr>memory = Dict [''name'' \<mapsto> ''Ada''], storage = Missing,
           events = [LogWarning SaveFailed, Say ''Okay, I'll call you Ada.'']\<rparr>)
   \<and> process_command (offline_env\<lparr>save_outcome := OpenFails\<rparr>)
        (restart (offline_env\<lparr>save_outcome := OpenFails\<rparr>)
           \<lparr>memory = Dict [''name'' \<mapsto> ''Ada''], storage = Missing,
            events = [LogWarning SaveFailed, Say ''Okay, I'll call you Ada.'']\<rparr>)
        ''my name'' =
     Inr (''Your name is not set yet.'',
          \<lparr>memory = Dict Map.empty, storage = Missing,
           events = [LogWarning EmailNotSet, Say ''Your name is not set yet.'']\<rparr>)"
proof -
  let ?env = "offline_env\<lparr>save_outcome := OpenFails\<rparr>"
  let ?w1 = "\<lparr>memory = Dict [''name'' \<mapsto> ''Ada''], storage = Missing,
             events = [LogWarning SaveFailed, Say ''Okay, I'll call you Ada.'']\<rparr>"
  have "memory fresh_world = Dict Map.empty" by (simp add: fresh_world_def)
  from call_me_ada[OF this, of ?env]
  have 1: "process_command ?env fresh_world ''call me Ada'' = Inr (''Okay, I'll call you Ada.'', ?w1)"
    by (simp add: speak_def save_memory_def fresh_world_def)
  have r: "restart ?env ?w1 =
             \<lparr>memory = Dict Map.empty, storage = Missing, events = [LogWarning EmailNotSet]\<rparr>"
    by (simp add: restart_def startup_def load_memory_def key_warnings_def offline_env_def
          NEWS_API_KEY_def WEATHER_API_KEY_def EMAIL_SENDER_def EMAIL_PASSWORD_def
          environ_get_def)
  have "memory (restart ?env ?w1) = Dict Map.empty" by (simp add: r)
  from my_name[OF this, of ?env]
  have 2: "process_command ?env (restart ?env ?w1) ''my name'' =
      Inr (''Your name is not set yet.'',
           \<lparr>memory = Dict Map.empty, storage = Missing,
            events = [LogWarning EmailNotSet, Say ''Your name is not set yet.'']\<rparr>)"
    by (simp add: speak_def r)
  from 1 2 show ?thesis by simp
qed

text \<open>
  C7.  \<open>set alarm for 07:30\<close> starts the alarm thread for \<open>07:30\<close> with the message
  \<open>Alarm ringing\<close>.  The thread confirms the alarm, then reads the clock once per turn
  and sleeps ten seconds after every reading that is not the alarm time; at the first
  reading that is, it speaks the message and returns.  So the message is spoken once if
  the alarm time is ever read and never otherwise, nothing but sleeping comes before
  it, and nothing comes after it, whatever the clock shows later.
\<close>

lemma alarm_loop_trace:
  "alarm_loop t m rs =
     (replicate (length (takeWhile (\<lambda>r. r \<noteq> t) rs)) (Sleeps 10)
      @ (if t \<in> set rs \<and> m \<noteq> [] then [Speaks m] else []), t \<in> set rs)"
  by (induction rs) (auto simp: Let_def split: prod.splits)

theorem alarm_rings_once:
  "process_command env w ''set alarm for 07:30'' =
     Inr (''Alarm set for 07:30'',
          w\<lparr>events := events w
             @ [AlarmThread ''07:30'' ''Alarm ringing'', Say ''Alarm set for 07:30'']\<rparr>)
   \<and> alarm_thread t ''Alarm ringing'' readings =
       (Speaks (''Alarm set for '' @ t @ ''.'')
        # replicate (length (takeWhile (\<lambda>r. r \<noteq> t) readings)) (Sleeps 10)
        @ (if t \<in> set readings then [Speaks ''Alarm ringing''] else []),
        t \<in> set readings)
   \<and> length (filter (\<lambda>s. s = Speaks ''Alarm ringing'')
                (fst (alarm_thread t ''Alarm ringing'' readings)))
       = (if t \<in> set readings then 1 else 0)"
proof -
  have "process_command env w ''set alarm for 07:30'' =
     Inr (''Alarm set for 07:30'',
          w\<lparr>events := events w
             @ [AlarmThread ''07:30'' ''Alarm ringing'', Say ''Alarm set for 07:30'']\<rparr>)"
    by (simp add: route_defs set_alarm_def alarm_match_here_def speak_def emit_def show_defs)
  moreover have "alarm_thread t ''Alarm ringing'' readings =
       (Speaks (''Alarm set for '' @ t @ ''.'')
        # replicate (length (takeWhile (\<lambda>r. r \<noteq> t) readings)) (Sleeps 10)
        @ (if t \<in> set readings then [Speaks ''Alarm ringing''] else []),
        t \<in> set readings)"
    by (simp add: alarm_thread_def alarm_loop_trace)
  moreover from this
  have "length (filter (\<lambda>s. s = Speaks ''Alarm ringing'')
                (fst (alarm_thread t ''Alarm ringing'' readings)))
       = (if t \<in> set readings then 1 else 0)"
    by simp
  ultimately show ?thesis by blast
qed

lemma alarm_thread_example:
  "alarm_thread ''07:30'' ''Alarm ringing'' [''07:29'', ''07:29'', ''07:30'', ''07:30'', ''07:31''] =
     ([Speaks ''Alarm set for 07:30.'', Sleeps 10, Sleeps 10, Speaks ''Alarm ringing''], True)"
  by (simp add: alarm_thread_def)

lemma load_answers_the_empty_record:
  "load_memory Missing = Dict Map.empty"
  "load_memory Unreadable = Dict Map.empty"
  "load_memory Malformed = Dict Map.empty"
  by (simp_all add: load_memory_def)

lemma name_not_set_yet:
  "memory w = Dict m \<Longrightarrow> m ''name'' = None \<Longrightarrow>
   process_command env w ''my name'' =
     Inr (''Your name is not set yet.'',
          w\<lparr>events := events w @ [Say ''Your name is not set yet.'']\<rparr>)"
  using my_name[of w m env] by (simp add: speak_def)

lemma load_returns_the_document: "load_memory (Stored d) = d"
  by (simp add: load_memory_def)

lemma my_name_on_a_document_that_is_no_record:
  "memory w = NotADict \<Longrightarrow> process_command env w ''my name'' = Inl AttributeError"
  by (simp add: route_defs)

lemma call_me_on_a_document_that_is_no_record:
  "memory w = NotADict \<Longrightarrow> process_command env w ''call me Ada'' = Inl TypeError"
  by (simp add: route_defs)

text \<open>
  C8.  \<open>_load_memory\<close> does not answer with a record for every state of the memory file.
  Where the file holds a JSON document that is no object (\<open>[1, 2]\<close>, \<open>null\<close>, a number, a
  string), \<open>json.load\<close> succeeds and the document is returned as it is: the process
  starts with a memory that is no record, \<open>my name\<close> raises \<open>AttributeError\<close> and \<open>call me
  Ada\<close> raises \<open>TypeError\<close>, and nothing is spoken.  (Where the file is missing,
  unreadable or rejected by \<open>json.load\<close> the answer is the empty record:
  \<open>load_answers_the_empty_record\<close>; and a record without a name is answered with \<open>not set
  yet\<close>: \<open>name_not_set_yet\<close>.)
\<close>

theorem load_returns_a_document_that_is_no_record:
  "load_memory (Stored NotADict) = NotADict
   \<and> startup offline_env (Stored NotADict) =
       \<lparr>memory = NotADict, storage = Stored NotADict, events = [LogWarning EmailNotSet]\<rparr>
   \<and> process_command offline_env (startup offline_env (Stored NotADict)) ''my name'' =
       Inl AttributeError
   \<and> process_command offline_env (startup offline_env (Stored NotADict)) ''call me Ada'' =
       Inl TypeError"
proof -
  have s: "startup offline_env (Stored NotADict) =
             \<lparr>memory = NotADict, storage = Stored NotADict, events = [LogWarning EmailNotSet]\<rparr>"
    by (simp add: startup_def load_memory_def key_warnings_def offline_env_def
          NEWS_API_KEY_def WEATHER_API_KEY_def EMAIL_SENDER_def EMAIL_PASSWORD_def
          environ_get_def)
  then have m: "memory (startup offline_env (Stored NotADict)) = NotADict" by simp
  from s my_name_on_a_document_that_is_no_record[OF m, of offline_env]
    call_me_on_a_document_that_is_no_record[OF m, of offline_env]
  show ?thesis by (simp add: load_memory_def)
qed

lemma weather_key_default:
  "environ env ''DELTA_WEATHER_API_KEY'' = None \<Longrightarrow>
   WEATHER_API_KEY (environ env) = ''a201655e97c349c993883936250411''"
  by (simp add: WEATHER_API_KEY_def environ_get_def)

lemma weather_key_is_empty_only_when_set_so:
  "WEATHER_API_KEY (environ env) = [] \<longleftrightarrow> environ env ''DELTA_WEATHER_API_KEY'' = Some []"
  by (simp add: WEATHER_API_KEY_def environ_get_def split: option.splits)

lemma weather_request_is_sent:
  "WEATHER_API_KEY (environ env) \<noteq> [] \<Longrightarrow>
   \<exists>reply. get_weather env w city =
     speak (w\<lparr>events := events w @ [HttpGet (weather_url env city)]\<rparr>) reply"
  by (cases "weather_service env (weather_url env city)")
     (auto simp: get_weather_def Let_def emit_def)

text \<open>
  C9, as the code has it.  The weather key is read from \<open>DELTA_WEATHER_API_KEY\<close> with a
  built-in key as the default, so it is empty only where the variable is set to the
  empty text.  There, loading the module logs the weather warning once, and a weather
  request is answered by the configuration message with no other effect: no request is
  sent.  Where the variable is not set, the key is the built-in one: no weather warning
  is logged, and a weather request sends the request with that key before it answers.
\<close>

theorem weather_key_configuration:
  "process_command env w ''weather in paris'' = Inr (get_weather env w ''paris'')
   \<and> (environ env ''DELTA_WEATHER_API_KEY'' = Some [] \<longrightarrow>
        get_weather env w city =
          (''Weather is not configured. Set DELTA_WEATHER_API_KEY to enable weather.'',
           w\<lparr>events := events w
              @ [Say ''Weather is not configured. Set DELTA_WEATHER_API_KEY to enable weather.'']\<rparr>)
        \<and> length (filter (\<lambda>e. e = LogWarning WeatherKeyNotSet) (events (startup env f))) = 1)
   \<and> (environ env ''DELTA_WEATHER_API_KEY'' = None \<longrightarrow>
        (\<exists>reply. get_weather env w city =
           speak (w\<lparr>events := events w
                     @ [HttpGet (''http://api.weatherapi.com/v1/current.json?key=''
                                 @ ''a201655e97c349c993883936250411''
                                 @ ''&q='' @ city @ ''&aqi=no'')]\<rparr>) reply)
        \<and> length (filter (\<lambda>e. e = LogWarning WeatherKeyNotSet) (events (startup env f))) = 0)"
proof (intro conjI impI)
  show "process_command env w ''weather in paris'' = Inr (get_weather env w ''paris'')"
    by (simp add: route_defs weather_city_here_def)
next
  assume "environ env ''DELTA_WEATHER_API_KEY'' = Some []"
  then have k: "WEATHER_API_KEY (environ env) = []"
    by (simp add: WEATHER_API_KEY_def environ_get_def)
  then show "get_weather env w city =
          (''Weather is not configured. Set DELTA_WEATHER_API_KEY to enable weather.'',
           w\<lparr>events := events w
              @ [Say ''Weather is not configured. Set DELTA_WEATHER_API_KEY to enable weather.'']\<rparr>)"
    by (simp add: get_weather_def speak_def)
  from k show "length (filter (\<lambda>e. e = LogWarning WeatherKeyNotSet) (events (startup env f))) = 1"
    by (simp add: startup_def key_warnings_def)
next
  assume u: "environ env ''DELTA_WEATHER_API_KEY'' = None"
  then have k: "WEATHER_API_KEY (environ env) = ''a201655e97c349c993883936250411''"
    by (rule weather_key_default)
  then have "WEATHER_API_KEY (environ env) \<noteq> []" by simp
  from weather_request_is_sent[OF this, of w city] k
  show "\<exists>reply. get_weather env w city =
           speak (w\<lparr>events := events w
                     @ [HttpGet (''http://api.weatherapi.com/v1/current.json?key=''
                                 @ ''a201655e97c349c993883936250411''
                                 @ ''&q='' @ city @ ''&aqi=no'')]\<rparr>) reply"
    by (simp add: weather_url_def)
  from k show "length (filter (\<lambda>e. e = LogWarning WeatherKeyNotSet) (events (startup env f))) = 0"
    by (simp add: startup_def key_warnings_def)
qed

theorem weather_key_configuration_witness:
  "environ (offline_env\<lparr>environ := [''DELTA_WEATHER_API_KEY'' \<mapsto> []]\<rparr>)
     ''DELTA_WEATHER_API_KEY'' = Some []
   \<and> process_command (offline_env\<lparr>environ := [''DELTA_WEATHER_API_KEY'' \<mapsto> []]\<rparr>) fresh_world
        ''weather in paris'' =
       Inr (''Weather is not configured. Set DELTA_WEATHER_API_KEY to enable weather.'',
            fresh_world\<lparr>events :=
               [Say ''Weather is not configured. Set DELTA_WEATHER_API_KEY to enable weather.'']\<rparr>)
   \<and> length (filter (\<lambda>e. e = LogWarning WeatherKeyNotSet)
                (events (startup (offline_env\<lparr>environ := [''DELTA_WEATHER_API_KEY'' \<mapsto> []]\<rparr>)
                           Missing))) = 1
   \<and> environ offline_env ''DELTA_WEATHER_API_KEY'' = None
   \<and> (\<exists>reply. get_weather offline_env fresh_world ''paris'' =
         speak (fresh_world\<lparr>events :=
                  [HttpGet ''http://api.weatherapi.com/v1/current.json?key=a201655e97c349c993883936250411&q=paris&aqi=no'']\<rparr>)
           reply)
   \<and> length (filter (\<lambda>e. e = LogWarning WeatherKeyNotSet)
                (events (startup offline_env Missing))) = 0"
proof -
  let ?env = "offline_env\<lparr>environ := [''DELTA_WEATHER_API_KEY'' \<mapsto> []]\<rparr>"
  have s: "environ ?env ''DELTA_WEATHER_API_KEY'' = Some []" by simp
  have u: "environ offline_env ''DELTA_WEATHER_API_KEY'' = None"
    by (simp add: offline_env_def)
  have e: "events fresh_world = []" by (simp add: fresh_world_def)
  from weather_key_configuration[of ?env fresh_world "''paris''" Missing] s
  have "process_command ?env fresh_world ''weather in paris'' =
       Inr (''Weather is not configured. Set DELTA_WEATHER_API_KEY to enable weather.'',
            fresh_world\<lparr>events :=
               [Say ''Weather is not configured. Set DELTA_WEATHER_API_KEY to enable weather.'']\<rparr>)"
    and "length (filter (\<lambda>e. e = LogWarning WeatherKeyNotSet) (events (startup ?env Missing))) = 1"
    by (simp_all add: e)
  moreover from weather_key_configuration[of offline_env fresh_world "''paris''" Missing] u
  have "\<exists>reply. get_weather offline_env fresh_world ''paris'' =
         speak (fresh_world\<lparr>events :=
                  [HttpGet ''http://api.weatherapi.com/v1/current.json?key=a201655e97c349c993883936250411&q=paris&aqi=no'']\<rparr>)
           reply"
    and "length (filter (\<lambda>e. e = LogWarning WeatherKeyNotSet)
                   (events (startup offline_env Missing))) = 0"
    by (simp_all add: e)
  ultimately show ?thesis using s u by simp
qed

text \<open>
  C9 as stated fails where \<open>DELTA_WEATHER_API_KEY\<close> is not set: the key is then the
  built-in one, loading the module logs no weather warning, and \<open>weather in paris\<close> sends
  a request to the weather service.
\<close>

theorem unset_weather_key_is_not_absent:
  "environ offline_env ''DELTA_WEATHER_API_KEY'' = None
   \<and> WEATHER_API_KEY (environ offline_env) = ''a201655e97c349c993883936250411''
   \<and> startup offline_env Missing =
       \<lparr>memory = Dict Map.empty, storage = Missing, events = [LogWarning EmailNotSet]\<rparr>
   \<and> process_command offline_env fresh_world ''weather in paris'' =
       Inr (''Weather lookup failed.'',
            \<lparr>memory = Dict Map.empty, storage = Missing,
             events =
               [HttpGet ''http://api.weatherapi.com/v1/current.json?key=a201655e97c349c993883936250411&q=paris&aqi=no'',
                Say ''Weather lookup failed.'']\<rparr>)"
proof -
  have "startup offline_env Missing =
       \<lparr>memory = Dict Map.empty, storage = Missing, events = [LogWarning EmailNotSet]\<rparr>"
    by (simp add: startup_def load_memory_def key_warnings_def offline_env_def
          NEWS_API_KEY_def WEATHER_API_KEY_def EMAIL_SENDER_def EMAIL_PASSWORD_def
          environ_get_def)
  moreover have "process_command offline_env fresh_world ''weather in paris'' =
                   Inr (get_weather offline_env fresh_world ''paris'')"
    by (simp add: route_defs weather_city_here_def)
  moreover have "get_weather offline_env fresh_world ''paris'' =
       (''Weather lookup failed.'',
        \<lparr>memory = Dict Map.empty, storage = Missing,
         events =
           [HttpGet ''http://api.weatherapi.com/v1/current.json?key=a201655e97c349c993883936250411&q=paris&aqi=no'',
            Say ''Weather lookup failed.'']\<rparr>)"
    by (simp add: get_weather_def weather_url_def emit_def speak_def Let_def offline_env_def
          fresh_world_def WEATHER_API_KEY_def environ_get_def)
  ultimately show ?thesis
    by (simp add: offline_env_def WEATHER_API_KEY_def environ_get_def)
qed

end
